theory Spec2Isabelle
  imports Complex_Main "HOL-Library.Log_Nat"
begin

section \<open>Python values and exceptions\<close>

text \<open>
  The exceptions that the modelled code can raise.  A function that may raise returns
  \<open>error + 'a\<close>; an operation that mutates its object and may raise half-way returns
  the object as the exception leaves it, paired with \<open>error option\<close>.
\<close>

datatype error =
    KeyError string
  | IndexError
  | AttributeError string
  | ZeroDivisionError
  | OverflowError
  | ValueError
  | TypeError
  | LookupError
  | Exception string

definition and_then :: "error + 'a \<Rightarrow> ('a \<Rightarrow> error + 'b) \<Rightarrow> error + 'b" where
  \<comment> \<open>sequencing: the first exception ends the computation\<close>
  "and_then m f = (case m of Inl e \<Rightarrow> Inl e | Inr v \<Rightarrow> f v)"

text \<open>
  A float is the real number it denotes, or one of the non-finite values.
\<close>

datatype pyfloat = Finite real | PosInf | NegInf | NaN

text \<open>
  The value of a pixel's colour is computed with exact arithmetic on the finite values
  (\<open>np_div\<close>); the non-finite results of numpy's division by zero are kept, since the
  code can produce them.
\<close>

definition np_div :: "real \<Rightarrow> real \<Rightarrow> pyfloat" where
  \<comment> \<open>numpy scalar division: a zero divisor gives inf or nan (and a warning), no exception\<close>
  "np_div a b =
     (if b = 0 then (if a = 0 then NaN else if 0 < a then PosInf else NegInf)
      else Finite (a / b))"

definition py_int :: "real \<Rightarrow> int" where
  \<comment> \<open>\<open>int(x)\<close> on a float truncates towards zero\<close>
  "py_int r = (if 0 \<le> r then \<lfloor>r\<rfloor> else \<lceil>r\<rceil>)"

definition py_mod1 :: "real \<Rightarrow> real" where
  \<comment> \<open>\<open>x % 1\<close>: the result has the sign of the divisor, so it lies in [0, 1)\<close>
  "py_mod1 r = r - of_int \<lfloor>r\<rfloor>"

subsection \<open>Binary64 arithmetic\<close>

text \<open>
  The arithmetic that decides a discrete result (the size of an axis, the index of a pixel)
  is that of the program: an operation on floats returns the exact result rounded to the
  nearest binary64 number, ties to even, and an infinity when the rounded result reaches
  2^1024 (\<open>round64\<close>).  \<open>expo a\<close> is the exponent of a positive number, the integer e
  with 2^e <= a < 2^(e + 1); a float has 53 significant bits, and below 2^-1022 the spacing
  of the floats stays 2^-1074.  \<open>rne\<close> rounds to the nearest integer, ties to even.
\<close>

definition expo :: "real \<Rightarrow> int" where
  "expo a = (if 1 \<le> a then bitlen \<lfloor>a\<rfloor> - 1 else - bitlen (\<lceil>1 / a\<rceil> - 1))"

definition rne :: "real \<Rightarrow> int" where
  "rne x =
     (let f = \<lfloor>x\<rfloor>; d = x - of_int f
      in if d < 1 / 2 then f else if 1 / 2 < d then f + 1 else if even f then f else f + 1)"

definition round64 :: "real \<Rightarrow> pyfloat" where
  "round64 r =
     (if r = 0 then Finite 0
      else
        (let a = \<bar>r\<bar>;
             q = 2 powi (max (expo a) (- 1022) - 52);
             v = of_int (rne (a / q)) * q
         in if 2 powi 1024 \<le> v then (if 0 < r then PosInf else NegInf)
            else Finite (if 0 < r then v else - v)))"

definition float_div :: "pyfloat \<Rightarrow> real \<Rightarrow> pyfloat" where
  \<comment> \<open>the quotient of two floats; by zero it is an infinity or nan\<close>
  "float_div f s =
     (case f of
        Finite a \<Rightarrow>
          (if s = 0 then (if a = 0 then NaN else if 0 < a then PosInf else NegInf)
           else round64 (a / s))
      | PosInf \<Rightarrow> (if s < 0 then NegInf else PosInf)
      | NegInf \<Rightarrow> (if s < 0 then PosInf else NegInf)
      | NaN \<Rightarrow> NaN)"

definition float_le :: "pyfloat \<Rightarrow> pyfloat \<Rightarrow> bool" where
  \<comment> \<open>\<open><=\<close> on floats: false when an operand is nan\<close>
  "float_le f g =
     (case f of
        Finite a \<Rightarrow> (case g of Finite b \<Rightarrow> a \<le> b | PosInf \<Rightarrow> True | _ \<Rightarrow> False)
      | PosInf \<Rightarrow> (case g of PosInf \<Rightarrow> True | _ \<Rightarrow> False)
      | NegInf \<Rightarrow> (case g of NaN \<Rightarrow> False | _ \<Rightarrow> True)
      | NaN \<Rightarrow> False)"

definition to_double :: "int \<Rightarrow> error + real" where
  \<comment> \<open>the conversion of an integer to a float, which raises when the integer is too large\<close>
  "to_double i = (case round64 (of_int i) of Finite r \<Rightarrow> Inr r | _ \<Rightarrow> Inl OverflowError)"

text \<open>
  The numbers of the image classes.  An attribute of the procedure is a Python int or a
  Python float (\<open>pynum\<close>); a coordinate read from a row of the snapshot is a numpy scalar,
  an int64 or a float64 (\<open>scalar\<close>).  A difference is an integer or a float.
\<close>

datatype pynum = PyInt int | PyFloat real

datatype scalar = Int64 int | Float64 real

datatype difference = IntDiff int | FloatDiff pyfloat

definition fits64 :: "int \<Rightarrow> bool" where
  "fits64 i \<longleftrightarrow> - (2 ^ 63) \<le> i \<and> i < 2 ^ 63"

definition wrap64 :: "int \<Rightarrow> int" where
  \<comment> \<open>the int64 that an integer result wraps around to\<close>
  "wrap64 i = (i + 2 ^ 63) mod 2 ^ 64 - 2 ^ 63"

definition py_le_np :: "pynum \<Rightarrow> scalar \<Rightarrow> bool" where
  \<comment> \<open>\<open>a <= x\<close>, numpy's comparison: two integers exactly, otherwise as floats\<close>
  "py_le_np a x =
     (case a of
        PyInt i \<Rightarrow>
          (case x of Int64 j \<Rightarrow> i \<le> j
           | Float64 r \<Rightarrow> float_le (round64 (of_int i)) (Finite r))
      | PyFloat q \<Rightarrow>
          (case x of Int64 j \<Rightarrow> float_le (Finite q) (round64 (of_int j))
           | Float64 r \<Rightarrow> q \<le> r))"

definition np_le_py :: "scalar \<Rightarrow> pynum \<Rightarrow> bool" where
  \<comment> \<open>\<open>x <= a\<close>\<close>
  "np_le_py x a =
     (case a of
        PyInt i \<Rightarrow>
          (case x of Int64 j \<Rightarrow> j \<le> i
           | Float64 r \<Rightarrow> float_le (Finite r) (round64 (of_int i)))
      | PyFloat q \<Rightarrow>
          (case x of Int64 j \<Rightarrow> float_le (round64 (of_int j)) (Finite q)
           | Float64 r \<Rightarrow> r \<le> q))"

definition np_subtract :: "scalar \<Rightarrow> pynum \<Rightarrow> error + difference" where
  \<comment> \<open>\<open>x - a\<close> on a numpy scalar: an int64 result wraps around, a Python int that is no
      int64 raises, and with a float operand the integer is converted first\<close>
  "np_subtract x a =
     (case x of
        Int64 j \<Rightarrow>
          (case a of
             PyInt i \<Rightarrow> if fits64 i then Inr (IntDiff (wrap64 (j - i))) else Inl OverflowError
           | PyFloat q \<Rightarrow> and_then (to_double j) (\<lambda>r. Inr (FloatDiff (round64 (r - q)))))
      | Float64 r \<Rightarrow>
          (case a of
             PyInt i \<Rightarrow> and_then (to_double i) (\<lambda>q. Inr (FloatDiff (round64 (r - q))))
           | PyFloat q \<Rightarrow> Inr (FloatDiff (round64 (r - q)))))"

definition np_true_divide :: "difference \<Rightarrow> pynum \<Rightarrow> error + pyfloat" where
  \<comment> \<open>\<open>d / s\<close> on a numpy scalar: both operands as floats, no exception on a zero divisor\<close>
  "np_true_divide d s =
     (case d of
        IntDiff j \<Rightarrow>
          (case s of
             PyInt i \<Rightarrow>
               if fits64 i
               then and_then (to_double j) (\<lambda>a.
                    and_then (to_double i) (\<lambda>b. Inr (float_div (Finite a) b)))
               else Inl OverflowError
           | PyFloat b \<Rightarrow> and_then (to_double j) (\<lambda>a. Inr (float_div (Finite a) b)))
      | FloatDiff f \<Rightarrow>
          (case s of
             PyInt i \<Rightarrow> and_then (to_double i) (\<lambda>b. Inr (float_div f b))
           | PyFloat b \<Rightarrow> Inr (float_div f b)))"

definition py_subtract :: "pynum \<Rightarrow> pynum \<Rightarrow> error + difference" where
  \<comment> \<open>\<open>a - b\<close> on Python numbers: exact on two ints, otherwise on floats\<close>
  "py_subtract a b =
     (case a of
        PyInt i \<Rightarrow>
          (case b of
             PyInt j \<Rightarrow> Inr (IntDiff (i - j))
           | PyFloat q \<Rightarrow> and_then (to_double i) (\<lambda>r. Inr (FloatDiff (round64 (r - q)))))
      | PyFloat r \<Rightarrow>
          (case b of
             PyInt j \<Rightarrow> and_then (to_double j) (\<lambda>q. Inr (FloatDiff (round64 (r - q))))
           | PyFloat q \<Rightarrow> Inr (FloatDiff (round64 (r - q)))))"

definition py_true_divide :: "difference \<Rightarrow> pynum \<Rightarrow> error + pyfloat" where
  \<comment> \<open>\<open>d / s\<close> on Python numbers: a zero divisor raises; the quotient of two ints is
      rounded once and raises when it is too large for a float\<close>
  "py_true_divide d s =
     (case d of
        IntDiff i \<Rightarrow>
          (case s of
             PyInt j \<Rightarrow>
               if j = 0 then Inl ZeroDivisionError
               else (case round64 (of_int i / of_int j) of
                       Finite q \<Rightarrow> Inr (Finite q)
                     | _ \<Rightarrow> Inl OverflowError)
           | PyFloat b \<Rightarrow>
               and_then (to_double i) (\<lambda>a.
                 if b = 0 then Inl ZeroDivisionError else Inr (round64 (a / b))))
      | FloatDiff f \<Rightarrow>
          (case s of
             PyInt j \<Rightarrow>
               and_then (to_double j) (\<lambda>b.
                 if b = 0 then Inl ZeroDivisionError else Inr (float_div f b))
           | PyFloat b \<Rightarrow> if b = 0 then Inl ZeroDivisionError else Inr (float_div f b)))"

section \<open>The measurement snapshot\<close>

text \<open>
  The snapshot is a table of named columns with one row per sample (a pandas DataFrame):
  \<open>fr_nrows\<close> rows, and for each column name the value of every row.  The columns of
  the model hold float64 values.
\<close>

record frame =
  fr_nrows :: nat
  fr_col :: "string \<Rightarrow> (nat \<Rightarrow> real) option"

definition getcol :: "frame \<Rightarrow> string \<Rightarrow> error + real list" where
  \<comment> \<open>\<open>data[name]\<close>, as the list of its values\<close>
  "getcol d name =
     (case fr_col d name of
        None \<Rightarrow> Inl (KeyError name)
      | Some f \<Rightarrow> Inr (map f [0 ..< fr_nrows d]))"

type_synonym row = "string \<Rightarrow> real option"

definition iterrows :: "frame \<Rightarrow> row list" where
  "iterrows d = map (\<lambda>i name. map_option (\<lambda>f. f i) (fr_col d name)) [0 ..< fr_nrows d]"

definition getitem :: "row \<Rightarrow> string \<Rightarrow> error + real" where
  \<comment> \<open>\<open>row[name]\<close>\<close>
  "getitem r name = (case r name of None \<Rightarrow> Inl (KeyError name) | Some v \<Rightarrow> Inr v)"

definition py_last :: "'a list \<Rightarrow> error + 'a" where
  \<comment> \<open>\<open>a[-1]\<close>\<close>
  "py_last xs = (if xs = [] then Inl IndexError else Inr (last xs))"

text \<open>
  Modelled from the spec: the Results object is external to the sources (``Results object
  (external, not shown): owns the canonical data snapshot'', ``append-only during a run,
  fully reloadable on demand'').  It holds the procedure's attributes and the current
  snapshot; \<open>reload\<close> replaces the snapshot by the contents of the results file.
  \<open>res_reloads\<close> counts the calls of \<open>reload\<close> the object has received.
\<close>

record results =
  res_procedure :: "string \<Rightarrow> pynum option"
  res_data :: frame
  res_file :: frame
  res_reloads :: nat

definition reload :: "results \<Rightarrow> results" where
  "reload r = r\<lparr>res_data := res_file r, res_reloads := Suc (res_reloads r)\<rparr>"

definition getattr :: "results \<Rightarrow> string \<Rightarrow> error + pynum" where
  \<comment> \<open>\<open>getattr(self.results.procedure, name)\<close>\<close>
  "getattr r name =
     (case res_procedure r name of None \<Rightarrow> Inl (AttributeError name) | Some v \<Rightarrow> Inr v)"

section \<open>ResultsImage\<close>

text \<open>
  The fields of the class, and what the object has done to its surroundings:
  \<open>ri_image\<close> is the array last handed to \<open>setImage\<close>, \<open>ri_emitted\<close> the emits of
  \<open>dataUpdated\<close> and \<open>ri_printed\<close> the exceptions written with \<open>print\<close>.  A pixel
  is the RGBA value of the colour map.
\<close>

type_synonym rgba = "real \<times> real \<times> real \<times> real"

record results_image =
  ri_results :: results
  ri_x :: string
  ri_y :: string
  ri_z :: string
  ri_xstart :: pynum
  ri_xend :: pynum
  ri_xstep :: pynum
  ri_xsize :: int
  ri_ystart :: pynum
  ri_yend :: pynum
  ri_ystep :: pynum
  ri_ysize :: int
  ri_img_data :: "rgba list list"
  ri_force_reload :: bool
  ri_image :: "rgba list list"
  ri_emitted :: "(real \<times> real) list"
  ri_printed :: "error list"

definition round_up :: "pyfloat \<Rightarrow> error + int" where
  \<comment> \<open>on inf, \<open>x % 1\<close> is nan, the test fails and \<open>int(x)\<close> raises; on nan likewise\<close>
  "round_up v =
     (case v of
        Finite r \<Rightarrow> Inr (if 1 / 2 \<le> py_mod1 r then py_int r + 1 else py_int r)
      | PosInf \<Rightarrow> Inl OverflowError
      | NegInf \<Rightarrow> Inl OverflowError
      | NaN \<Rightarrow> Inl ValueError)"

text \<open>
  The coordinates are the numpy scalars that \<open>update_data\<close> reads from a row, so the
  subtraction and the division are numpy's.  The indices start as the last pixel and are
  replaced, axis by axis, when the coordinate lies in [start, end].
\<close>

definition fractional_index :: "scalar \<Rightarrow> pynum \<Rightarrow> pynum \<Rightarrow> error + pyfloat" where
  \<comment> \<open>\<open>(x - start) / step\<close>\<close>
  "fractional_index x start step =
     and_then (np_subtract x start) (\<lambda>d. np_true_divide d step)"

definition find_img_index :: "results_image \<Rightarrow> scalar \<Rightarrow> scalar \<Rightarrow> error + int \<times> int" where
  "find_img_index s x y =
     and_then (if py_le_np (ri_xstart s) x \<and> np_le_py x (ri_xend s)
               then and_then (fractional_index x (ri_xstart s) (ri_xstep s)) round_up
               else Inr (ri_xsize s - 1)) (\<lambda>xidx.
     and_then (if py_le_np (ri_ystart s) y \<and> np_le_py y (ri_yend s)
               then and_then (fractional_index y (ri_ystart s) (ri_ystep s)) round_up
               else Inr (ri_ysize s - 1)) (\<lambda>yidx.
       Inr (xidx, yidx)))"

definition py_quotient :: "pynum \<Rightarrow> pynum \<Rightarrow> pynum \<Rightarrow> error + pyfloat" where
  \<comment> \<open>\<open>(end - start) / step\<close> on the attributes of the procedure\<close>
  "py_quotient start end step =
     and_then (py_subtract end start) (\<lambda>d. py_true_divide d step)"

definition axis_size :: "pynum \<Rightarrow> pynum \<Rightarrow> pynum \<Rightarrow> error + int" where
  \<comment> \<open>\<open>int(np.ceil((end - start) / step)) + 1\<close>: \<open>int\<close> raises on an infinity and on nan\<close>
  "axis_size start end step =
     and_then (py_quotient start end step) (\<lambda>q.
       case q of
         Finite r \<Rightarrow> Inr (\<lceil>r\<rceil> + 1)
       | PosInf \<Rightarrow> Inl OverflowError
       | NegInf \<Rightarrow> Inl OverflowError
       | NaN \<Rightarrow> Inl ValueError)"

definition zero_rgba :: rgba where
  "zero_rgba = (0, 0, 0, 0)"

definition np_zeros2 :: "int \<Rightarrow> int \<Rightarrow> error + rgba list list" where
  \<comment> \<open>\<open>np.zeros((h, w, 4))\<close>: a negative dimension raises\<close>
  "np_zeros2 h w =
     (if h < 0 \<or> w < 0 then Inl ValueError
      else Inr (replicate (nat h) (replicate (nat w) zero_rgba)))"

definition ResultsImage_init ::
  "results \<Rightarrow> string \<Rightarrow> string \<Rightarrow> string \<Rightarrow> bool \<Rightarrow> error + results_image" where
  "ResultsImage_init res x y z force_reload =
     and_then (getattr res (x @ ''_start'')) (\<lambda>xstart.
     and_then (getattr res (x @ ''_end'')) (\<lambda>xend.
     and_then (getattr res (x @ ''_step'')) (\<lambda>xstep.
     and_then (axis_size xstart xend xstep) (\<lambda>xsize.
     and_then (getattr res (y @ ''_start'')) (\<lambda>ystart.
     and_then (getattr res (y @ ''_end'')) (\<lambda>yend.
     and_then (getattr res (y @ ''_step'')) (\<lambda>ystep.
     and_then (axis_size ystart yend ystep) (\<lambda>ysize.
     and_then (np_zeros2 ysize xsize) (\<lambda>img.
       Inr \<lparr>ri_results = res, ri_x = x, ri_y = y, ri_z = z,
            ri_xstart = xstart, ri_xend = xend, ri_xstep = xstep, ri_xsize = xsize,
            ri_ystart = ystart, ri_yend = yend, ri_ystep = ystep, ri_ysize = ysize,
            ri_img_data = img, ri_force_reload = force_reload, ri_image = img,
            ri_emitted = [], ri_printed = []\<rparr>)))))))))"

definition np_index :: "nat \<Rightarrow> int \<Rightarrow> error + nat" where
  \<comment> \<open>an index into an axis of length \<open>n\<close>: negative indices count from the end\<close>
  "np_index n i =
     (if 0 \<le> i \<and> i < int n then Inr (nat i)
      else if - int n \<le> i \<and> i < 0 then Inr (nat (i + int n))
      else Inl IndexError)"

definition setitem2 :: "'a list list \<Rightarrow> int \<Rightarrow> int \<Rightarrow> 'a \<Rightarrow> error + 'a list list" where
  \<comment> \<open>\<open>img[yidx, xidx, :] = c\<close>\<close>
  "setitem2 img yidx xidx c =
     and_then (np_index (length img) yidx) (\<lambda>j.
     and_then (np_index (length (img ! j)) xidx) (\<lambda>i.
       Inr (img[j := (img ! j)[i := c]])))"

definition col_min :: "real list \<Rightarrow> real option" where
  \<comment> \<open>\<open>.min()\<close> of a column; \<open>None\<close> is the nan of an empty column\<close>
  "col_min zs = (case zs of [] \<Rightarrow> None | v # vs \<Rightarrow> Some (fold min vs v))"

definition col_max :: "real list \<Rightarrow> real option" where
  "col_max zs = (case zs of [] \<Rightarrow> None | v # vs \<Rightarrow> Some (fold max vs v))"

definition normalise :: "real \<Rightarrow> real option \<Rightarrow> real option \<Rightarrow> pyfloat" where
  \<comment> \<open>\<open>(v - zmin) / (zmax - zmin)\<close>, nan when a bound is nan\<close>
  "normalise v zmin zmax =
     (case zmin of None \<Rightarrow> NaN
      | Some lo \<Rightarrow> (case zmax of None \<Rightarrow> NaN | Some hi \<Rightarrow> np_div (v - lo) (hi - lo)))"

text \<open>
  The loop of \<open>update_data\<close> over the rows of the snapshot.  The colour map \<open>cm\<close> is
  pyqtgraph's (\<open>self.cm.map(x, mode='float')\<close>), a parameter here.  An exception leaves
  the loop with the pixels written so far.
\<close>

definition populate_row ::
  "(pyfloat \<Rightarrow> rgba) \<Rightarrow> real option \<Rightarrow> real option \<Rightarrow> results_image \<Rightarrow> row
     \<Rightarrow> error + rgba list list" where
  \<comment> \<open>the body of the loop: the pixel array after the row's pixel is written\<close>
  "populate_row cm zmin zmax s r =
     and_then (getitem r (ri_x s)) (\<lambda>xdat.
     and_then (getitem r (ri_y s)) (\<lambda>ydat.
     and_then (find_img_index s (Float64 xdat) (Float64 ydat)) (\<lambda>(xidx, yidx).
     and_then (getitem r (ri_z s)) (\<lambda>zdat.
       setitem2 (ri_img_data s) yidx xidx (cm (normalise zdat zmin zmax))))))"

fun populate ::
  "(pyfloat \<Rightarrow> rgba) \<Rightarrow> real option \<Rightarrow> real option \<Rightarrow> results_image \<Rightarrow> row list
     \<Rightarrow> results_image \<times> error option" where
  "populate cm zmin zmax s [] = (s, None)"
| "populate cm zmin zmax s (r # rs) =
     (case populate_row cm zmin zmax s r of
        Inl e \<Rightarrow> (s, Some e)
      | Inr img \<Rightarrow> populate cm zmin zmax (s\<lparr>ri_img_data := img\<rparr>) rs)"

definition np_transpose :: "nat \<Rightarrow> 'a list list \<Rightarrow> 'a list list" where
  \<comment> \<open>\<open>np.transpose(img, axes=(1, 0, 2))\<close> of an image with rows of length \<open>w\<close>\<close>
  "np_transpose w img = map (\<lambda>i. map (\<lambda>r. r ! i) img) [0 ..< w]"

definition last_sample :: "frame \<Rightarrow> string \<Rightarrow> string \<Rightarrow> error + real \<times> real" where
  \<comment> \<open>the arguments of the emit: \<open>data[x].to_numpy()[-1], data[y].to_numpy()[-1]\<close>\<close>
  "last_sample d x y =
     and_then (getcol d x) (\<lambda>xs.
     and_then (py_last xs) (\<lambda>xl.
     and_then (getcol d y) (\<lambda>ys.
     and_then (py_last ys) (\<lambda>yl. Inr (xl, yl)))))"

definition emit_last :: "frame \<Rightarrow> results_image \<Rightarrow> results_image" where
  \<comment> \<open>the \<open>try\<close>/\<open>except Exception\<close> around the emit of the final point\<close>
  "emit_last d s =
     (case last_sample d (ri_x s) (ri_y s) of
        Inr p \<Rightarrow> s\<lparr>ri_emitted := ri_emitted s @ [p]\<rparr>
      | Inl e \<Rightarrow> s\<lparr>ri_printed := ri_printed s @ [e], ri_emitted := ri_emitted s @ [(0, 0)]\<rparr>)"

definition update_data :: "(pyfloat \<Rightarrow> rgba) \<Rightarrow> results_image \<Rightarrow> results_image \<times> error option" where
  "update_data cm s =
     (let s1 = (if ri_force_reload s then s\<lparr>ri_results := reload (ri_results s)\<rparr> else s);
          d = res_data (ri_results s1)
      in case getcol d (ri_z s1) of
           Inl e \<Rightarrow> (s1, Some e)
         | Inr zs \<Rightarrow>
             (case populate cm (col_min zs) (col_max zs) s1 (iterrows d) of
                (s2, Some e) \<Rightarrow> (s2, Some e)
              | (s2, None) \<Rightarrow>
                  (emit_last d
                     (s2\<lparr>ri_image := np_transpose (nat (ri_xsize s2)) (ri_img_data s2)\<rparr>),
                   None)))"

section \<open>Results3DImage\<close>

record results3d_image =
  r3_results :: results
  r3_var :: string
  r3_x :: string
  r3_y :: string
  r3_z :: string
  r3_xstart :: pynum
  r3_xend :: pynum
  r3_xstep :: pynum
  r3_xsize :: int
  r3_ystart :: pynum
  r3_yend :: pynum
  r3_ystep :: pynum
  r3_ysize :: int
  r3_zstart :: pynum
  r3_zend :: pynum
  r3_zstep :: pynum
  r3_zsize :: int
  r3_shown_zidx :: int
  r3_img_data :: "rgba list list list"
  r3_force_reload :: bool
  r3_image :: "rgba list list"
  r3_emitted :: "(real \<times> real) list"
  r3_printed :: "error list"

definition find_img_index3 ::
  "results3d_image \<Rightarrow> scalar \<Rightarrow> scalar \<Rightarrow> scalar \<Rightarrow> error + int \<times> int \<times> int" where
  "find_img_index3 s x y z =
     and_then (if py_le_np (r3_xstart s) x \<and> np_le_py x (r3_xend s)
               then and_then (fractional_index x (r3_xstart s) (r3_xstep s)) round_up
               else Inr (r3_xsize s - 1)) (\<lambda>xidx.
     and_then (if py_le_np (r3_ystart s) y \<and> np_le_py y (r3_yend s)
               then and_then (fractional_index y (r3_ystart s) (r3_ystep s)) round_up
               else Inr (r3_ysize s - 1)) (\<lambda>yidx.
     and_then (if py_le_np (r3_zstart s) z \<and> np_le_py z (r3_zend s)
               then and_then (fractional_index z (r3_zstart s) (r3_zstep s)) round_up
               else Inr (r3_zsize s - 1)) (\<lambda>zidx.
       Inr (xidx, yidx, zidx))))"

definition np_zeros3 :: "int \<Rightarrow> int \<Rightarrow> int \<Rightarrow> error + rgba list list list" where
  \<comment> \<open>\<open>np.zeros((d, h, w, 4))\<close>\<close>
  "np_zeros3 d h w =
     (if d < 0 \<or> h < 0 \<or> w < 0 then Inl ValueError
      else Inr (replicate (nat d) (replicate (nat h) (replicate (nat w) zero_rgba))))"

definition getitem0 :: "'a list \<Rightarrow> int \<Rightarrow> error + 'a" where
  \<comment> \<open>\<open>a[i]\<close> along the first axis\<close>
  "getitem0 a i = and_then (np_index (length a) i) (\<lambda>k. Inr (a ! k))"

definition Results3DImage_init ::
  "results \<Rightarrow> string \<Rightarrow> string \<Rightarrow> string \<Rightarrow> string \<Rightarrow> bool \<Rightarrow> error + results3d_image" where
  "Results3DImage_init res var x y z force_reload =
     and_then (getattr res (x @ ''_start'')) (\<lambda>xstart.
     and_then (getattr res (x @ ''_end'')) (\<lambda>xend.
     and_then (getattr res (x @ ''_step'')) (\<lambda>xstep.
     and_then (axis_size xstart xend xstep) (\<lambda>xsize.
     and_then (getattr res (y @ ''_start'')) (\<lambda>ystart.
     and_then (getattr res (y @ ''_end'')) (\<lambda>yend.
     and_then (getattr res (y @ ''_step'')) (\<lambda>ystep.
     and_then (axis_size ystart yend ystep) (\<lambda>ysize.
     and_then (getattr res (z @ ''_start'')) (\<lambda>zstart.
     and_then (getattr res (z @ ''_end'')) (\<lambda>zend.
     and_then (getattr res (z @ ''_step'')) (\<lambda>zstep.
     and_then (axis_size zstart zend zstep) (\<lambda>zsize.
     and_then (np_zeros3 zsize ysize xsize) (\<lambda>img.
     and_then (getitem0 img 0) (\<lambda>img0.
       Inr \<lparr>r3_results = res, r3_var = var, r3_x = x, r3_y = y, r3_z = z,
            r3_xstart = xstart, r3_xend = xend, r3_xstep = xstep, r3_xsize = xsize,
            r3_ystart = ystart, r3_yend = yend, r3_ystep = ystep, r3_ysize = ysize,
            r3_zstart = zstart, r3_zend = zend, r3_zstep = zstep, r3_zsize = zsize,
            r3_shown_zidx = 0, r3_img_data = img, r3_force_reload = force_reload,
            r3_image = img0, r3_emitted = [], r3_printed = []\<rparr>))))))))))))))"

definition py_slice_from :: "'a list \<Rightarrow> int \<Rightarrow> int \<Rightarrow> error + 'a list" where
  \<comment> \<open>\<open>a[start::step]\<close>\<close>
  "py_slice_from a start step =
     (let n = int (length a) in
      if step = 0 then Inl ValueError
      else if 0 < step then
        (let b = (if start < 0 then max (start + n) 0 else min start n)
         in Inr (map (\<lambda>k. a ! nat (b + int k * step)) [0 ..< nat ((n - b + step - 1) div step)]))
      else
        (let b = (if start < 0 then max (start + n) (- 1) else min start (n - 1))
         in Inr (map (\<lambda>k. a ! nat (b + int k * step)) [0 ..< nat ((b - step) div (- step))])))"

definition np_min :: "real list \<Rightarrow> error + real" where
  \<comment> \<open>\<open>.min()\<close> of a numpy array: an empty array raises\<close>
  "np_min vs = (case vs of [] \<Rightarrow> Inl ValueError | v # ws \<Rightarrow> Inr (fold min ws v))"

definition np_max :: "real list \<Rightarrow> error + real" where
  "np_max vs = (case vs of [] \<Rightarrow> Inl ValueError | v # ws \<Rightarrow> Inr (fold max ws v))"

definition var_color ::
  "(pyfloat \<Rightarrow> rgba) \<Rightarrow> frame \<Rightarrow> results3d_image \<Rightarrow> real \<Rightarrow> int \<Rightarrow> error + rgba" where
  "var_color cm d s v zidx =
     and_then (getcol d (r3_var s)) (\<lambda>vs.
     and_then (py_slice_from vs zidx (r3_zsize s)) (\<lambda>sl.
     and_then (np_min sl) (\<lambda>var_min.
     and_then (np_max sl) (\<lambda>var_max.
       Inr (cm (np_div (v - var_min) (var_max - var_min)))))))"

definition setitem3 ::
  "'a list list list \<Rightarrow> int \<Rightarrow> int \<Rightarrow> int \<Rightarrow> 'a \<Rightarrow> error + 'a list list list" where
  \<comment> \<open>\<open>img[zidx, yidx, xidx, :] = c\<close>\<close>
  "setitem3 img zidx yidx xidx c =
     and_then (np_index (length img) zidx) (\<lambda>k.
     and_then (setitem2 (img ! k) yidx xidx c) (\<lambda>plane.
       Inr (img[k := plane])))"

definition populate3_row ::
  "(pyfloat \<Rightarrow> rgba) \<Rightarrow> frame \<Rightarrow> results3d_image \<Rightarrow> row \<Rightarrow> error + rgba list list list" where
  "populate3_row cm d s r =
     and_then (getitem r (r3_x s)) (\<lambda>xdat.
     and_then (getitem r (r3_y s)) (\<lambda>ydat.
     and_then (getitem r (r3_z s)) (\<lambda>zdat.
     and_then (find_img_index3 s (Float64 xdat) (Float64 ydat) (Float64 zdat)) (\<lambda>(xidx, yidx, zidx).
     and_then (getitem r (r3_var s)) (\<lambda>v.
     and_then (var_color cm d s v zidx) (\<lambda>c.
       setitem3 (r3_img_data s) zidx yidx xidx c))))))"

fun populate3 ::
  "(pyfloat \<Rightarrow> rgba) \<Rightarrow> frame \<Rightarrow> results3d_image \<Rightarrow> row list
     \<Rightarrow> results3d_image \<times> error option" where
  "populate3 cm d s [] = (s, None)"
| "populate3 cm d s (r # rs) =
     (case populate3_row cm d s r of
        Inl e \<Rightarrow> (s, Some e)
      | Inr img \<Rightarrow> populate3 cm d (s\<lparr>r3_img_data := img\<rparr>) rs)"

definition emit_last3 :: "frame \<Rightarrow> results3d_image \<Rightarrow> results3d_image" where
  "emit_last3 d s =
     (case last_sample d (r3_x s) (r3_y s) of
        Inr p \<Rightarrow> s\<lparr>r3_emitted := r3_emitted s @ [p]\<rparr>
      | Inl e \<Rightarrow> s\<lparr>r3_printed := r3_printed s @ [e], r3_emitted := r3_emitted s @ [(0, 0)]\<rparr>)"

definition update_data3 ::
  "(pyfloat \<Rightarrow> rgba) \<Rightarrow> results3d_image \<Rightarrow> results3d_image \<times> error option" where
  "update_data3 cm s =
     (let s1 = (if r3_force_reload s then s\<lparr>r3_results := reload (r3_results s)\<rparr> else s);
          d = res_data (r3_results s1)
      in case populate3 cm d s1 (iterrows d) of
           (s2, Some e) \<Rightarrow> (s2, Some e)
         | (s2, None) \<Rightarrow>
             (case getitem0 (r3_img_data s2) (r3_shown_zidx s2) of
                Inl e \<Rightarrow> (s2, Some e)
              | Inr plane \<Rightarrow>
                  (emit_last3 d (s2\<lparr>r3_image := np_transpose (nat (r3_xsize s2)) plane\<rparr>),
                   None)))"

section \<open>ResultsCurve and PlotFrame\<close>

text \<open>
  A curve shows the series last handed to \<open>setData\<close>.  Its axes are column names; the
  frame can bind an axis to \<open>None\<close>.
\<close>

record results_curve =
  rc_results :: results
  rc_x :: "string option"
  rc_y :: "string option"
  rc_force_reload :: bool
  rc_shown :: "real list \<times> real list"

definition ResultsCurve_init :: "results \<Rightarrow> string option \<Rightarrow> string option \<Rightarrow> bool \<Rightarrow> results_curve" where
  "ResultsCurve_init res x y force_reload =
     \<lparr>rc_results = res, rc_x = x, rc_y = y, rc_force_reload = force_reload, rc_shown = ([], [])\<rparr>"

definition getcol_opt :: "frame \<Rightarrow> string option \<Rightarrow> error + real list" where
  \<comment> \<open>\<open>data[key]\<close> for a key that may be \<open>None\<close>, which names no column\<close>
  "getcol_opt d key = (case key of None \<Rightarrow> Inl (KeyError ''None'') | Some name \<Rightarrow> getcol d name)"

definition curve_update_data :: "results_curve \<Rightarrow> results_curve \<times> error option" where
  \<comment> \<open>\<open>ResultsCurve.update_data\<close>\<close>
  "curve_update_data c =
     (let c1 = (if rc_force_reload c then c\<lparr>rc_results := reload (rc_results c)\<rparr> else c);
          d = res_data (rc_results c1)
      in case getcol_opt d (rc_x c1) of
           Inl e \<Rightarrow> (c1, Some e)
         | Inr xs \<Rightarrow>
             (case getcol_opt d (rc_y c1) of
                Inl e \<Rightarrow> (c1, Some e)
              | Inr ys \<Rightarrow> (c1\<lparr>rc_shown := (xs, ys)\<rparr>, None)))"

text \<open>
  \<open>PlotFrame.parse_axis\<close>.  The regular expression engine is a parameter: \<open>search a\<close> is
  the \<open>units\<close> group of the first match of the pattern in \<open>a\<close>, if there is one, and
  \<open>sub a\<close> is \<open>a\<close> with every match removed.  An axis that is not a string makes
  \<open>re.search\<close> raise TypeError, which is caught.
\<close>

definition parse_axis ::
  "(string \<Rightarrow> string option) \<Rightarrow> (string \<Rightarrow> string) \<Rightarrow> string option
     \<Rightarrow> string option \<times> string option" where
  "parse_axis search sub axis =
     (case axis of
        None \<Rightarrow> (axis, None)
      | Some a \<Rightarrow> (case search a of Some units \<Rightarrow> (Some (sub a), Some units) | None \<Rightarrow> (axis, None)))"

record plot_frame =
  pf_items :: "results_curve list"
  pf_x_axis :: "string option"
  pf_y_axis :: "string option"
  pf_labels :: "(string \<times> string option \<times> string option) list"
  pf_emitted :: "(string \<times> string option) list"

fun rebind_x :: "string option \<Rightarrow> results_curve list \<Rightarrow> results_curve list \<times> error option" where
  \<comment> \<open>the loop of \<open>change_x_axis\<close>: \<open>item.x = axis; item.update_data()\<close>\<close>
  "rebind_x axis [] = ([], None)"
| "rebind_x axis (c # cs) =
     (case curve_update_data (c\<lparr>rc_x := axis\<rparr>) of
        (c', Some e) \<Rightarrow> (c' # cs, Some e)
      | (c', None) \<Rightarrow> (case rebind_x axis cs of (cs', out) \<Rightarrow> (c' # cs', out)))"

fun rebind_y :: "string option \<Rightarrow> results_curve list \<Rightarrow> results_curve list \<times> error option" where
  "rebind_y axis [] = ([], None)"
| "rebind_y axis (c # cs) =
     (case curve_update_data (c\<lparr>rc_y := axis\<rparr>) of
        (c', Some e) \<Rightarrow> (c' # cs, Some e)
      | (c', None) \<Rightarrow> (case rebind_y axis cs of (cs', out) \<Rightarrow> (c' # cs', out)))"

definition change_x_axis ::
  "(string \<Rightarrow> string option) \<Rightarrow> (string \<Rightarrow> string) \<Rightarrow> string option \<Rightarrow> plot_frame
     \<Rightarrow> plot_frame \<times> error option" where
  "change_x_axis search sub axis f =
     (case rebind_x axis (pf_items f) of
        (items, Some e) \<Rightarrow> (f\<lparr>pf_items := items\<rparr>, Some e)
      | (items, None) \<Rightarrow>
          (case parse_axis search sub axis of
             (label, units) \<Rightarrow>
               (f\<lparr>pf_items := items,
                  pf_labels := pf_labels f @ [(''bottom'', label, units)],
                  pf_x_axis := axis,
                  pf_emitted := pf_emitted f @ [(''x_axis_changed'', axis)]\<rparr>, None)))"

definition change_y_axis ::
  "(string \<Rightarrow> string option) \<Rightarrow> (string \<Rightarrow> string) \<Rightarrow> string option \<Rightarrow> plot_frame
     \<Rightarrow> plot_frame \<times> error option" where
  "change_y_axis search sub axis f =
     (case rebind_y axis (pf_items f) of
        (items, Some e) \<Rightarrow> (f\<lparr>pf_items := items\<rparr>, Some e)
      | (items, None) \<Rightarrow>
          (case parse_axis search sub axis of
             (label, units) \<Rightarrow>
               (f\<lparr>pf_items := items,
                  pf_labels := pf_labels f @ [(''left'', label, units)],
                  pf_y_axis := axis,
                  pf_emitted := pf_emitted f @ [(''y_axis_changed'', axis)]\<rparr>, None)))"

section \<open>BufferCurve\<close>

text \<open>
  \<open>_buffer\<close> is \<open>None\<close> until \<open>prepare\<close>; \<open>_ptr\<close> is an attribute that \<open>prepare\<close>
  creates (\<open>None\<close> here while it does not exist).  \<open>bc_shown\<close> is the data handed to
  \<open>setData\<close>, \<open>bc_emits\<close> counts the emits of \<open>data_updated\<close>.
\<close>

record buffer_curve =
  bc_buffer :: "(real \<times> real) list option"
  bc_ptr :: "int option"
  bc_shown :: "(real \<times> real) list"
  bc_emits :: nat

definition BufferCurve_init :: buffer_curve where
  "BufferCurve_init = \<lparr>bc_buffer = None, bc_ptr = None, bc_shown = [], bc_emits = 0\<rparr>"

definition prepare :: "(nat \<Rightarrow> real \<times> real) \<Rightarrow> int \<Rightarrow> buffer_curve \<Rightarrow> buffer_curve \<times> error option" where
  \<comment> \<open>\<open>np.empty((size, 2))\<close> holds whatever the memory held: \<open>junk\<close>; a negative size raises\<close>
  "prepare junk n c =
     (if n < 0 then (c, Some ValueError)
      else (c\<lparr>bc_buffer := Some (map junk [0 ..< nat n]), bc_ptr := Some 0\<rparr>, None))"

definition py_slice_to :: "'a list \<Rightarrow> int \<Rightarrow> 'a list" where
  \<comment> \<open>\<open>a[:stop]\<close>\<close>
  "py_slice_to a stop =
     (let n = int (length a)
      in take (nat (if stop < 0 then max (stop + n) 0 else min stop n)) a)"

definition append ::
  "(real \<Rightarrow> real) \<Rightarrow> real \<Rightarrow> real \<Rightarrow> buffer_curve \<Rightarrow> buffer_curve \<times> error option" where
  \<comment> \<open>\<open>cast\<close> is the conversion to the buffer's dtype (float32 unless \<open>prepare\<close> is told otherwise)\<close>
  "append cast x y c =
     (case bc_buffer c of
        None \<Rightarrow> (c, Some (Exception ''BufferCurve buffer must be prepared''))
      | Some buf \<Rightarrow>
          (case bc_ptr c of
             None \<Rightarrow> (c, Some (AttributeError ''_ptr''))
           | Some p \<Rightarrow>
               if int (length buf) \<le> p then (c, Some (Exception ''BufferCurve overflow''))
               else
                 (case np_index (length buf) p of
                    Inl e \<Rightarrow> (c, Some e)
                  | Inr k \<Rightarrow>
                      (let buf' = buf[k := (cast x, cast y)]
                       in (c\<lparr>bc_buffer := Some buf', bc_shown := py_slice_to buf' p,
                             bc_ptr := Some (p + 1), bc_emits := Suc (bc_emits c)\<rparr>, None)))))"

datatype buffer_op = Prepare int | Append real real

fun run_ops ::
  "(nat \<Rightarrow> real \<times> real) \<Rightarrow> (real \<Rightarrow> real) \<Rightarrow> buffer_op list \<Rightarrow> buffer_curve \<Rightarrow> buffer_curve" where
  \<comment> \<open>a sequence of calls; a call that raises leaves the curve as it was and the caller goes on\<close>
  "run_ops junk cast [] c = c"
| "run_ops junk cast (Prepare n # ops) c = run_ops junk cast ops (fst (prepare junk n c))"
| "run_ops junk cast (Append x y # ops) c = run_ops junk cast ops (fst (append cast x y c))"

section \<open>Instrument properties\<close>

text \<open>
  The values a property can be set to: Python ints, floats (idealised as reals), strings,
  booleans and members of an \<open>Enum\<close> class (by name).
\<close>

datatype pyval = PInt int | PFloat real | PStr string | PBool bool | PEnum string

definition py_num :: "pyval \<Rightarrow> real option" where
  \<comment> \<open>the number a value denotes in a comparison; \<open>True\<close> is 1 and \<open>False\<close> is 0\<close>
  "py_num v =
     (case v of
        PInt i \<Rightarrow> Some (of_int i)
      | PFloat r \<Rightarrow> Some r
      | PBool b \<Rightarrow> Some (if b then 1 else 0)
      | PStr s \<Rightarrow> None
      | PEnum m \<Rightarrow> None)"

definition py_eq :: "pyval \<Rightarrow> pyval \<Rightarrow> bool" where
  \<comment> \<open>\<open>==\<close>: numbers by value, strings with strings, members with members\<close>
  "py_eq a b =
     (case (py_num a, py_num b) of
        (Some r, Some q) \<Rightarrow> r = q
      | (None, None) \<Rightarrow>
          (case (a, b) of
             (PStr s, PStr t) \<Rightarrow> s = t
           | (PEnum s, PEnum t) \<Rightarrow> s = t
           | _ \<Rightarrow> False)
      | _ \<Rightarrow> False)"

text \<open>The \<open>values\<close> argument of a property, as the drivers write it.\<close>

datatype pyvalues =
    Tuple "pyval list"
  | PyList "pyval list"
  | Range int int
  | Dict "(pyval \<times> pyval) list"
  | EnumClass "(string \<times> int) list"
  | NoValues

datatype validator = StrictRange | StrictDiscreteSet | NoValidator

datatype set_process = Identity | EnumValue

record property =
  p_set_command :: "string option"
  p_validator :: validator
  p_values :: pyvalues
  p_map_values :: bool
  p_set_process :: set_process

definition elements :: "pyvalues \<Rightarrow> pyval list option" where
  \<comment> \<open>what iterating over the values yields; \<open>None\<close> when they cannot be iterated\<close>
  "elements vs =
     (case vs of
        Tuple xs \<Rightarrow> Some xs
      | PyList xs \<Rightarrow> Some xs
      | Range a b \<Rightarrow> Some (map PInt [a .. b - 1])
      | Dict kvs \<Rightarrow> Some (map fst kvs)
      | EnumClass ms \<Rightarrow> Some (map (\<lambda>m. PEnum (fst m)) ms)
      | NoValues \<Rightarrow> None)"

text \<open>
  Modelled from the spec: \<open>pymeasure.instruments.validators\<close> is not among the sources,
  which only name its functions (\<open>validator=strict_range\<close>,
  \<open>validator=strict_discrete_set\<close>).  The spec: each property has ``an associated
  validator (value range or enumeration) applied before transmission'', and ``an invalid
  value raises a validation error''.  \<open>strict_range\<close> accepts a number between the
  minimum and the maximum of the values; \<open>strict_discrete_set\<close> accepts a value that is
  \<open>in\<close> the values; both return the value they accept and raise ValueError otherwise.
  A value that cannot be compared with the bounds raises TypeError.
\<close>

definition strict_range :: "pyval \<Rightarrow> pyvalues \<Rightarrow> error + pyval" where
  "strict_range v vs =
     (case elements vs of
        None \<Rightarrow> Inl TypeError
      | Some es \<Rightarrow>
          (case those (map py_num es) of
             None \<Rightarrow> Inl TypeError
           | Some [] \<Rightarrow> Inl ValueError
           | Some (b # bs) \<Rightarrow>
               (case py_num v of
                  None \<Rightarrow> Inl TypeError
                | Some r \<Rightarrow>
                    if fold min bs b \<le> r \<and> r \<le> fold max bs b then Inr v
                    else Inl ValueError)))"

definition py_in :: "pyval \<Rightarrow> pyvalues \<Rightarrow> error + bool" where
  \<comment> \<open>\<open>value in values\<close>; a range holds the numbers equal to one of its integers\<close>
  "py_in v vs =
     (case vs of
        Tuple xs \<Rightarrow> Inr (list_ex (py_eq v) xs)
      | PyList xs \<Rightarrow> Inr (list_ex (py_eq v) xs)
      | Range a b \<Rightarrow>
          Inr (case py_num v of
                 None \<Rightarrow> False
               | Some r \<Rightarrow> r = of_int \<lfloor>r\<rfloor> \<and> a \<le> \<lfloor>r\<rfloor> \<and> \<lfloor>r\<rfloor> < b)
      | Dict kvs \<Rightarrow> Inr (list_ex (py_eq v) (map fst kvs))
      | EnumClass ms \<Rightarrow>
          (case v of PEnum m \<Rightarrow> Inr (m \<in> set (map fst ms)) | _ \<Rightarrow> Inl TypeError)
      | NoValues \<Rightarrow> Inl TypeError)"

definition strict_discrete_set :: "pyval \<Rightarrow> pyvalues \<Rightarrow> error + pyval" where
  "strict_discrete_set v vs =
     (case py_in v vs of
        Inl e \<Rightarrow> Inl e
      | Inr found \<Rightarrow> if found then Inr v else Inl ValueError)"

text \<open>
  Modelled from the spec: the setter that \<open>Instrument.control\<close> and \<open>Instrument.setting\<close>
  build is not among the sources.  The spec: ``an associated validator \<dots> applied before
  transmission'', ``Side effect: one adapter round-trip per get/set'', ``an invalid value
  raises a validation error before any I/O''.  The adapter is the list of the command
  strings written to it; \<open>fmt\<close> is Python's \<open>%\<close> formatting of the command template
  (with the channel inserted), which can raise.  A property without a set command (a
  measurement) cannot be set.
\<close>

definition validate :: "property \<Rightarrow> pyval \<Rightarrow> error + pyval" where
  \<comment> \<open>the property's validator applied to its values; the default validator accepts all\<close>
  "validate p v =
     (case p_validator p of
        StrictRange \<Rightarrow> strict_range v (p_values p)
      | StrictDiscreteSet \<Rightarrow> strict_discrete_set v (p_values p)
      | NoValidator \<Rightarrow> Inr v)"

definition apply_set_process :: "property \<Rightarrow> pyval \<Rightarrow> error + pyval" where
  \<comment> \<open>\<open>set_process\<close>: the identity, or \<open>lambda v: v.value\<close> on a member of the property's enum\<close>
  "apply_set_process p v =
     (case p_set_process p of
        Identity \<Rightarrow> Inr v
      | EnumValue \<Rightarrow>
          (case (v, p_values p) of
             (PEnum m, EnumClass ms) \<Rightarrow>
               (case map_of ms m of None \<Rightarrow> Inl (AttributeError ''value'') | Some i \<Rightarrow> Inr (PInt i))
           | _ \<Rightarrow> Inl (AttributeError ''value'')))"

fun py_index :: "pyval \<Rightarrow> pyval list \<Rightarrow> nat option" where
  \<comment> \<open>\<open>values.index(value)\<close>: the position of the first equal element\<close>
  "py_index v [] = None"
| "py_index v (e # es) = (if py_eq e v then Some 0 else map_option Suc (py_index v es))"

definition map_value :: "property \<Rightarrow> pyval \<Rightarrow> error + pyval" where
  \<comment> \<open>\<open>map_values\<close>: the index of the value in a sequence, the entry of a dictionary\<close>
  "map_value p v =
     (if \<not> p_map_values p then Inr v
      else
        (case p_values p of
           Dict kvs \<Rightarrow>
             (case find (\<lambda>kv. py_eq v (fst kv)) kvs of
                None \<Rightarrow> Inl (KeyError ''value'')
              | Some kv \<Rightarrow> Inr (snd kv))
         | EnumClass ms \<Rightarrow> Inl ValueError
         | NoValues \<Rightarrow> Inl ValueError
         | _ \<Rightarrow>
             (case elements (p_values p) of
                None \<Rightarrow> Inl ValueError
              | Some es \<Rightarrow>
                  (case py_index v es of
                     None \<Rightarrow> Inl ValueError
                   | Some i \<Rightarrow> Inr (PInt (int i))))))"

definition fset ::
  "(string \<Rightarrow> pyval \<Rightarrow> error + string) \<Rightarrow> property \<Rightarrow> pyval \<Rightarrow> string list
     \<Rightarrow> string list \<times> error option" where
  "fset fmt p v adapter =
     (case p_set_command p of
        None \<Rightarrow> (adapter, Some LookupError)
      | Some cmd \<Rightarrow>
          (case and_then (validate p v) (\<lambda>v1.
                and_then (apply_set_process p v1) (\<lambda>v2.
                and_then (map_value p v2) (\<lambda>v3. fmt cmd v3))) of
             Inl e \<Rightarrow> (adapter, Some e)
           | Inr s \<Rightarrow> (adapter @ [s], None)))"

text \<open>
  How the drivers declare a property: \<open>control\<close> and \<open>setting\<close> with a set command,
  \<open>measurement\<close> without one; the other arguments have the defaults of the base class.
\<close>

definition control :: "string \<Rightarrow> validator \<Rightarrow> pyvalues \<Rightarrow> property" where
  "control set_command v vs =
     \<lparr>p_set_command = Some set_command, p_validator = v, p_values = vs,
      p_map_values = False, p_set_process = Identity\<rparr>"

definition measurement :: property where
  "measurement =
     \<lparr>p_set_command = None, p_validator = NoValidator, p_values = Tuple [],
      p_map_values = False, p_set_process = Identity\<rparr>"

subsection \<open>TF930\<close>

definition TF930MasurementFunctions :: "(string \<times> int) list" where
  "TF930MasurementFunctions =
     [(''BInputPeriod'', 0), (''AInputPeriod'', 1), (''AInputFrequency'', 2),
      (''BInputFrequency'', 3), (''FreqeuncyRatioBA'', 4), (''AInputWidthHigh'', 5),
      (''AInputWidthLow'', 6), (''AInputCount'', 7), (''AInputRatioHL'', 8),
      (''AInputDutyCycle'', 9)]"

definition measurement_function :: property where
  "measurement_function =
     (control ''F%i'' StrictDiscreteSet (EnumClass TF930MasurementFunctions))
       \<lparr>p_set_process := EnumValue\<rparr>"

definition threshold_ac :: property where
  "threshold_ac = control ''TO%i'' StrictDiscreteSet (Range (- 60) 61)"

definition threshold_dc :: property where
  "threshold_dc = control ''TT%i'' StrictDiscreteSet (Range (- 300) 2101)"

definition measurement_time :: property where
  "measurement_time =
     (control ''M%i'' StrictDiscreteSet
        (Dict [(PFloat (3 / 10), PInt 1), (PInt 1, PInt 2), (PInt 10, PInt 3), (PInt 100, PInt 4)]))
       \<lparr>p_map_values := True\<rparr>"

definition inputACoupling :: property where
  "inputACoupling = control ''%s'' StrictDiscreteSet (PyList [PStr ''AC'', PStr ''DC''])"

definition inputAImpedance :: property where
  "inputAImpedance =
     (control ''%s'' StrictDiscreteSet
        (Dict [(PStr ''1MOhm'', PStr ''Z1''), (PStr ''50Ohm'', PStr ''Z5'')]))
       \<lparr>p_map_values := True\<rparr>"

definition inputAAttenuation :: property where
  "inputAAttenuation =
     (control ''%s'' StrictDiscreteSet
        (Dict [(PStr ''5:1'', PStr ''A5''), (PStr ''1:1'', PStr ''A1'')]))
       \<lparr>p_map_values := True\<rparr>"

definition edge_trigger :: property where
  "edge_trigger =
     (control ''%s'' StrictDiscreteSet
        (Dict [(PStr ''rising'', PStr ''ER''), (PStr ''falling'', PStr ''EF'')]))
       \<lparr>p_map_values := True\<rparr>"

definition low_pass_filter_enable :: property where
  "low_pass_filter_enable =
     (control ''%s'' StrictDiscreteSet
        (Dict [(PBool True, PStr ''FI''), (PBool False, PStr ''FO'')]))
       \<lparr>p_map_values := True\<rparr>"

definition TF930_properties :: "(string \<times> property) list" where
  "TF930_properties =
     [(''measurement_function'', measurement_function), (''threshold_ac'', threshold_ac),
      (''threshold_dc'', threshold_dc), (''measurement_time'', measurement_time),
      (''every_result_query'', measurement), (''continuous_result_query'', measurement),
      (''next_result_query'', measurement), (''current_result_query'', measurement),
      (''inputACoupling'', inputACoupling), (''inputAImpedance'', inputAImpedance),
      (''inputAAttenuation'', inputAAttenuation), (''edge_trigger'', edge_trigger),
      (''low_pass_filter_enable'', low_pass_filter_enable)]"

subsection \<open>Keithley 6482\<close>

definition on_off :: pyvalues where
  "on_off = Tuple [PBool True, PBool False]"

definition volts :: pyvalues where
  "volts = Tuple [PInt (- 30), PInt 30]"

definition voltage :: property where
  "voltage = control ''SOUR{ch}:VOLT %g'' StrictRange volts"

definition speed_accuracy :: property where
  "speed_accuracy =
     control ''SENS{ch}:CURR:NPLC %g'' StrictRange (Tuple [PFloat (1 / 100), PInt 10])"

definition settling_time :: property where
  "settling_time =
     control ''SOUR{ch}:DEL %g'' StrictRange (Tuple [PInt 0, PFloat (9999999 / 1000)])"

definition Keithley6482Chnanel_properties :: "(string \<times> property) list" where
  "Keithley6482Chnanel_properties =
     [(''sourcing_mode'',
         control ''SOUR{ch}:VOLT:MODE %s'' StrictDiscreteSet
           (PyList [PStr ''FIX'', PStr ''LIST'', PStr ''SWE''])),
      (''settling_time'', settling_time),
      (''current'', measurement),
      (''current_autorange'', control ''SENS{ch}:CURR:RANG:AUTO %i'' StrictDiscreteSet on_off),
      (''ground_connect'', control ''SOUR{ch}:GCON %i'' StrictDiscreteSet on_off),
      (''output'', control ''OUTP{ch} %i'' StrictDiscreteSet on_off),
      (''auto_delay'', control ''SOUR{ch}:DEL:AUTO %i'' StrictDiscreteSet on_off),
      (''voltage'', voltage),
      (''start'', control ''SOUR{ch}:VOLT:STAR %g'' StrictRange volts),
      (''stop'', control ''SOUR{ch}:VOLT:STOP %g'' StrictRange volts),
      (''step'', control ''SOUR{ch}:VOLT:STEP %g'' StrictRange volts),
      (''points'', control ''SOUR{ch}:SWE:POIN %i'' StrictDiscreteSet (Range 1 3000)),
      (''center'', control ''SOUR{ch}:VOLT:CENT %g'' StrictRange volts),
      (''span'', control ''SOUR{ch}:VOLT:SPAN %g'' StrictRange volts),
      (''spacing'',
         control ''SOUR{ch}:SWE:SPAC %s'' StrictDiscreteSet (PyList [PStr ''LIN'', PStr ''LOG''])),
      (''ranging'',
         control ''SOUR{ch}:SWE:RANG %s'' StrictDiscreteSet
           (PyList [PStr ''BEST'', PStr ''AUTO'', PStr ''FIX''])),
      (''direction'',
         control ''SOUR{ch}:SWE:DIR %s'' StrictDiscreteSet (PyList [PStr ''UP'', PStr ''DOWN''])),
      (''median_filter_enable'', control ''SENS{ch}:MED:STAT %i'' StrictDiscreteSet on_off),
      (''speed_accuracy'', speed_accuracy),
      (''average_filter_enable'', control ''SENS{ch}:AVER:STAT %i'' StrictDiscreteSet on_off),
      (''average_filter_count'',
         control ''SENS{ch}:AVER:COUN %i'' StrictDiscreteSet (Range 1 101)),
      (''average_filter_type'',
         control ''SENS{ch}:AVER:TCON %s'' StrictDiscreteSet (PyList [PStr ''MOV'', PStr ''REP''])),
      (''advanced_filter_enable'', control ''SENS{ch}:AVER:ADV %i'' StrictDiscreteSet on_off)]"

definition Keithley6482_properties :: "(string \<times> property) list" where
  "Keithley6482_properties =
     [(''trigger_count'', control ''TRIG:COUN %i'' StrictDiscreteSet (Range 1 3000)),
      (''arm_count'', control ''ARM:COUN %i'' StrictDiscreteSet (Range 1 3000))]"

subsection \<open>PM101U\<close>

definition PM101U_properties :: "(string \<times> property) list" where
  "PM101U_properties =
     [(''power'', measurement),
      (''wavelength'', control ''SENS:CORR:WAV %g'' NoValidator (Tuple [])),
      (''dark_offset'', measurement)]"

definition all_properties :: "(string \<times> property) list" where
  "all_properties =
     TF930_properties @ Keithley6482Chnanel_properties @ Keithley6482_properties
       @ PM101U_properties"

section \<open>Reference notions and sample objects\<close>

definition round_half_up :: "real \<Rightarrow> int" where
  \<comment> \<open>rounding to the nearest integer, a fraction of exactly .5 going up\<close>
  "round_half_up r = \<lfloor>r + 1 / 2\<rfloor>"

definition empty_frame :: frame where
  "empty_frame = \<lparr>fr_nrows = 0, fr_col = (\<lambda>name. None)\<rparr>"

definition results_neg_step :: results where
  \<comment> \<open>a procedure whose x axis runs from 0 to 1 with step -2\<close>
  "results_neg_step =
     \<lparr>res_procedure =
        map_of [(''x_start'', PyFloat 0), (''x_end'', PyFloat 1), (''x_step'', PyFloat (- 2)),
                (''y_start'', PyFloat 0), (''y_end'', PyFloat 1), (''y_step'', PyFloat 1)],
      res_data = empty_frame, res_file = empty_frame, res_reloads = 0\<rparr>"

definition image_neg_step :: results_image where
  "image_neg_step =
     \<lparr>ri_results = results_neg_step, ri_x = ''x'', ri_y = ''y'', ri_z = ''z'',
      ri_xstart = PyFloat 0, ri_xend = PyFloat 1, ri_xstep = PyFloat (- 2), ri_xsize = 1,
      ri_ystart = PyFloat 0, ri_yend = PyFloat 1, ri_ystep = PyFloat 1, ri_ysize = 2,
      ri_img_data = [[zero_rgba], [zero_rgba]], ri_force_reload = False,
      ri_image = [[zero_rgba], [zero_rgba]], ri_emitted = [], ri_printed = []\<rparr>"

definition scan_frame :: frame where
  \<comment> \<open>three samples of a scan with columns x, y, z and v\<close>
  "scan_frame =
     \<lparr>fr_nrows = 3,
      fr_col = map_of [(''x'', (\<lambda>i. [0, 1, 5 / 2] ! i)), (''y'', (\<lambda>i. [0, 1 / 2, 7] ! i)),
                       (''z'', (\<lambda>i. [0, 1, 2] ! i)), (''v'', (\<lambda>i. [10, 30, 20] ! i))]\<rparr>"

definition scan_results :: results where
  \<comment> \<open>x from 0 to 2 by 1, y from 0 to 1 by 1/2, z from 0 to 2 by 1\<close>
  "scan_results =
     \<lparr>res_procedure =
        map_of [(''x_start'', PyFloat 0), (''x_end'', PyFloat 2), (''x_step'', PyFloat 1),
                (''y_start'', PyFloat 0), (''y_end'', PyFloat 1), (''y_step'', PyFloat (1 / 2)),
                (''z_start'', PyFloat 0), (''z_end'', PyFloat 2), (''z_step'', PyFloat 1)],
      res_data = scan_frame, res_file = scan_frame, res_reloads = 0\<rparr>"

definition scan_image :: results_image where
  "scan_image =
     \<lparr>ri_results = scan_results, ri_x = ''x'', ri_y = ''y'', ri_z = ''v'',
      ri_xstart = PyFloat 0, ri_xend = PyFloat 2, ri_xstep = PyFloat 1, ri_xsize = 3,
      ri_ystart = PyFloat 0, ri_yend = PyFloat 1, ri_ystep = PyFloat (1 / 2), ri_ysize = 3,
      ri_img_data = replicate 3 (replicate 3 zero_rgba), ri_force_reload = False,
      ri_image = replicate 3 (replicate 3 zero_rgba), ri_emitted = [], ri_printed = []\<rparr>"

definition scan_image3 :: results3d_image where
  "scan_image3 =
     \<lparr>r3_results = scan_results, r3_var = ''v'', r3_x = ''x'', r3_y = ''y'', r3_z = ''z'',
      r3_xstart = PyFloat 0, r3_xend = PyFloat 2, r3_xstep = PyFloat 1, r3_xsize = 3,
      r3_ystart = PyFloat 0, r3_yend = PyFloat 1, r3_ystep = PyFloat (1 / 2), r3_ysize = 3,
      r3_zstart = PyFloat 0, r3_zend = PyFloat 2, r3_zstep = PyFloat 1, r3_zsize = 3,
      r3_shown_zidx = 0,
      r3_img_data = replicate 3 (replicate 3 (replicate 3 zero_rgba)),
      r3_force_reload = False, r3_image = replicate 3 (replicate 3 zero_rgba),
      r3_emitted = [], r3_printed = []\<rparr>"

definition tenth :: real where
  \<comment> \<open>the float that the literal 0.1 denotes\<close>
  "tenth = 3602879701896397 / 2 ^ 55"

definition tenths_results :: results where
  \<comment> \<open>a procedure whose x axis runs from 0.1 to 0.4 with step 0.1\<close>
  "tenths_results =
     \<lparr>res_procedure =
        map_of [(''x_start'', PyFloat tenth), (''x_end'', PyFloat (4 * tenth)),
                (''x_step'', PyFloat tenth),
                (''y_start'', PyFloat 0), (''y_end'', PyFloat 1), (''y_step'', PyFloat 1)],
      res_data = empty_frame, res_file = empty_frame, res_reloads = 0\<rparr>"

definition results_int64 :: results where
  \<comment> \<open>a procedure with integer parameters: x from -2^62 to 2^62 with step 2^60\<close>
  "results_int64 =
     \<lparr>res_procedure =
        map_of [(''x_start'', PyInt (- (2 ^ 62))), (''x_end'', PyInt (2 ^ 62)),
                (''x_step'', PyInt (2 ^ 60)),
                (''y_start'', PyInt 0), (''y_end'', PyInt 1), (''y_step'', PyInt 1)],
      res_data = empty_frame, res_file = empty_frame, res_reloads = 0\<rparr>"

definition image_int64 :: results_image where
  "image_int64 =
     \<lparr>ri_results = results_int64, ri_x = ''x'', ri_y = ''y'', ri_z = ''z'',
      ri_xstart = PyInt (- (2 ^ 62)), ri_xend = PyInt (2 ^ 62), ri_xstep = PyInt (2 ^ 60),
      ri_xsize = 9,
      ri_ystart = PyInt 0, ri_yend = PyInt 1, ri_ystep = PyInt 1, ri_ysize = 2,
      ri_img_data = replicate 2 (replicate 9 zero_rgba), ri_force_reload = False,
      ri_image = replicate 2 (replicate 9 zero_rgba), ri_emitted = [], ri_printed = []\<rparr>"

definition shape2 :: "'a list list \<Rightarrow> nat \<times> nat list" where
  \<comment> \<open>the dimensions of a pixel array: the number of rows and the length of each\<close>
  "shape2 img = (length img, map length img)"

definition shape3 :: "'a list list list \<Rightarrow> nat \<times> (nat \<times> nat list) list" where
  "shape3 img = (length img, map shape2 img)"

definition image_inv :: "results_image \<Rightarrow> bool" where
  \<comment> \<open>what the constructor establishes: the sizes come from the axes, the array from the sizes\<close>
  "image_inv s \<longleftrightarrow>
     axis_size (ri_xstart s) (ri_xend s) (ri_xstep s) = Inr (ri_xsize s)
     \<and> axis_size (ri_ystart s) (ri_yend s) (ri_ystep s) = Inr (ri_ysize s)
     \<and> 0 \<le> ri_xsize s \<and> 0 \<le> ri_ysize s
     \<and> shape2 (ri_img_data s) = (nat (ri_ysize s), replicate (nat (ri_ysize s)) (nat (ri_xsize s)))"

definition image3_inv :: "results3d_image \<Rightarrow> bool" where
  "image3_inv s \<longleftrightarrow>
     axis_size (r3_xstart s) (r3_xend s) (r3_xstep s) = Inr (r3_xsize s)
     \<and> axis_size (r3_ystart s) (r3_yend s) (r3_ystep s) = Inr (r3_ysize s)
     \<and> axis_size (r3_zstart s) (r3_zend s) (r3_zstep s) = Inr (r3_zsize s)
     \<and> 0 \<le> r3_xsize s \<and> 0 \<le> r3_ysize s \<and> 0 < r3_zsize s
     \<and> shape3 (r3_img_data s) =
           (nat (r3_zsize s),
            replicate (nat (r3_zsize s))
              (nat (r3_ysize s), replicate (nat (r3_ysize s)) (nat (r3_xsize s))))"

definition same_grid :: "results_image \<Rightarrow> results_image \<Rightarrow> bool" where
  \<comment> \<open>both images have the same axes, sizes and array dimensions\<close>
  "same_grid s' s \<longleftrightarrow>
     ri_xstart s' = ri_xstart s \<and> ri_xend s' = ri_xend s \<and> ri_xstep s' = ri_xstep s
     \<and> ri_xsize s' = ri_xsize s
     \<and> ri_ystart s' = ri_ystart s \<and> ri_yend s' = ri_yend s \<and> ri_ystep s' = ri_ystep s
     \<and> ri_ysize s' = ri_ysize s
     \<and> shape2 (ri_img_data s') = shape2 (ri_img_data s)"

definition same_grid3 :: "results3d_image \<Rightarrow> results3d_image \<Rightarrow> bool" where
  "same_grid3 s' s \<longleftrightarrow>
     r3_xstart s' = r3_xstart s \<and> r3_xend s' = r3_xend s \<and> r3_xstep s' = r3_xstep s
     \<and> r3_xsize s' = r3_xsize s
     \<and> r3_ystart s' = r3_ystart s \<and> r3_yend s' = r3_yend s \<and> r3_ystep s' = r3_ystep s
     \<and> r3_ysize s' = r3_ysize s
     \<and> r3_zstart s' = r3_zstart s \<and> r3_zend s' = r3_zend s \<and> r3_zstep s' = r3_zstep s
     \<and> r3_zsize s' = r3_zsize s
     \<and> shape3 (r3_img_data s') = shape3 (r3_img_data s)"

definition grey_ramp :: "pyfloat \<Rightarrow> rgba" where
  \<comment> \<open>a sample colour map, standing for pyqtgraph's\<close>
  "grey_ramp v = (case v of Finite r \<Rightarrow> (r, r, r, 1) | _ \<Rightarrow> zero_rgba)"

definition bc_inv :: "buffer_curve \<Rightarrow> bool" where
  \<comment> \<open>the write pointer exists exactly when the buffer does, and then 0 <= ptr <= buffer size\<close>
  "bc_inv c =
     (case bc_buffer c of
        None \<Rightarrow> bc_ptr c = None
      | Some buf \<Rightarrow> (case bc_ptr c of None \<Rightarrow> False | Some p \<Rightarrow> 0 \<le> p \<and> p \<le> int (length buf)))"

definition junk0 :: "nat \<Rightarrow> real \<times> real" where
  \<comment> \<open>sample contents of a fresh buffer\<close>
  "junk0 i = (0, 0)"

definition two_points :: "buffer_op list" where
  \<comment> \<open>an append too early, a buffer of two rows, and one append too many\<close>
  "two_points = [Append 1 2, Prepare 2, Append 1 2, Append 3 4, Append 5 6]"

definition full_buffer :: buffer_curve where
  "full_buffer =
     \<lparr>bc_buffer = Some [(1, 2), (3, 4)], bc_ptr = Some 2, bc_shown = [(1, 2)], bc_emits = 2\<rparr>"

definition curve_snapshot :: "results_curve \<Rightarrow> frame" where
  \<comment> \<open>the snapshot that \<open>update_data\<close> reads: the reloaded one when \<open>force_reload\<close> is set\<close>
  "curve_snapshot c =
     res_data (if rc_force_reload c then reload (rc_results c) else rc_results c)"

definition stale_results :: results where
  \<comment> \<open>the results file has three samples that the object has not loaded yet\<close>
  "stale_results = scan_results\<lparr>res_data := empty_frame\<rparr>"

definition no_units :: "string \<Rightarrow> string option" where
  \<comment> \<open>a sample \<open>search\<close>: no axis name carries a unit\<close>
  "no_units a = None"

definition one_curve_frame :: plot_frame where
  \<comment> \<open>a frame that plots column v against column x\<close>
  "one_curve_frame =
     \<lparr>pf_items = [ResultsCurve_init scan_results (Some ''x'') (Some ''v'') False],
      pf_x_axis = Some ''x'', pf_y_axis = Some ''v'', pf_labels = [], pf_emitted = []\<rparr>"

definition reloaded :: "results_image \<Rightarrow> results_image" where
  \<comment> \<open>the image after the first statement of \<open>update_data\<close>: reloaded when \<open>force_reload\<close> is set\<close>
  "reloaded s = (if ri_force_reload s then s\<lparr>ri_results := reload (ri_results s)\<rparr> else s)"

definition image_snapshot :: "results_image \<Rightarrow> frame" where
  \<comment> \<open>the snapshot that \<open>update_data\<close> works on\<close>
  "image_snapshot s = res_data (ri_results (reloaded s))"

definition pixel_at :: "'a list list \<Rightarrow> int \<times> int \<Rightarrow> (nat \<times> nat) option" where
  \<comment> \<open>the row and column of the pixel array that an index pair (xidx, yidx) addresses\<close>
  "pixel_at img idx =
     (case np_index (length img) (snd idx) of
        Inl e \<Rightarrow> None
      | Inr j \<Rightarrow>
          (case np_index (length (img ! j)) (fst idx) of
             Inl e \<Rightarrow> None
           | Inr k \<Rightarrow> Some (j, k)))"

definition pixel_of :: "results_image \<Rightarrow> real \<Rightarrow> real \<Rightarrow> (nat \<times> nat) option" where
  \<comment> \<open>the pixel that the loop writes for a sample at (x, y), if the write succeeds\<close>
  "pixel_of s x y =
     (case find_img_index s (Float64 x) (Float64 y) of
        Inl e \<Rightarrow> None
      | Inr idx \<Rightarrow> pixel_at (ri_img_data s) idx)"


definition reloaded3 :: "results3d_image \<Rightarrow> results3d_image" where
  \<comment> \<open>the 3-D image after the first statement of \<open>update_data\<close>\<close>
  "reloaded3 s = (if r3_force_reload s then s\<lparr>r3_results := reload (r3_results s)\<rparr> else s)"

definition image3_snapshot :: "results3d_image \<Rightarrow> frame" where
  \<comment> \<open>the snapshot that the 3-D \<open>update_data\<close> works on\<close>
  "image3_snapshot s = res_data (r3_results (reloaded3 s))"

definition emitted_after :: "frame \<Rightarrow> string \<Rightarrow> string \<Rightarrow> (real \<times> real) list \<Rightarrow> (real \<times> real) list" where
  \<comment> \<open>the emits of \<open>dataUpdated\<close> after the final-point emit: the last sample, or (0, 0) when reading it raised\<close>
  "emitted_after d x y em =
     (case last_sample d x y of Inr p \<Rightarrow> em @ [p] | Inl e \<Rightarrow> em @ [(0, 0)])"

definition printed_after :: "frame \<Rightarrow> string \<Rightarrow> string \<Rightarrow> error list \<Rightarrow> error list" where
  \<comment> \<open>what has been printed after the final-point emit: the exception, when reading the last sample raised\<close>
  "printed_after d x y pr =
     (case last_sample d x y of Inr p \<Rightarrow> pr | Inl e \<Rightarrow> pr @ [e])"

definition idle_frame :: frame where
  \<comment> \<open>the columns of the scan before the first sample has arrived\<close>
  "idle_frame = scan_frame\<lparr>fr_nrows := 0\<rparr>"

definition idle_image :: results_image where
  "idle_image = scan_image\<lparr>ri_results := scan_results\<lparr>res_data := idle_frame\<rparr>\<rparr>"

definition idle_image3 :: results3d_image where
  "idle_image3 = scan_image3\<lparr>r3_results := scan_results\<lparr>res_data := idle_frame\<rparr>\<rparr>"

definition range_verdict :: "real \<Rightarrow> real \<Rightarrow> pyval \<Rightarrow> error + pyval" where
  \<comment> \<open>the verdict on a value for the real interval [a, b]: accepted inside, ValueError outside, TypeError when it is no number\<close>
  "range_verdict a b v =
     (case py_num v of
        None \<Rightarrow> Inl TypeError
      | Some r \<Rightarrow> if a \<le> r \<and> r \<le> b then Inr v else Inl ValueError)"

definition int_range_verdict :: "int \<Rightarrow> int \<Rightarrow> pyval \<Rightarrow> error + pyval" where
  \<comment> \<open>the verdict on a value for the integers a..b: accepted when it equals one of them, ValueError otherwise\<close>
  "int_range_verdict a b v =
     (if \<exists>k. a \<le> k \<and> k \<le> b \<and> py_num v = Some (of_int k) then Inr v else Inl ValueError)"

definition sample_fmt :: "string \<Rightarrow> pyval \<Rightarrow> error + string" where
  \<comment> \<open>a sample formatter: it writes the command template as it is\<close>
  "sample_fmt cmd v = Inr cmd"

section \<open>Properties\<close>

subsection \<open>Rounding to binary64\<close>

lemma expo_lower: "0 < a \<Longrightarrow> 2 powi expo a \<le> a"
proof (cases "1 \<le> a")
  case True
  then have n: "0 < \<lfloor>a\<rfloor>" by simp
  from bitlen_bounds [OF n] have "(2::int) ^ nat (bitlen \<lfloor>a\<rfloor> - 1) \<le> \<lfloor>a\<rfloor>" by simp
  then have "real_of_int (2 ^ nat (bitlen \<lfloor>a\<rfloor> - 1)) \<le> of_int \<lfloor>a\<rfloor>"
    by (simp only: of_int_le_iff)
  also have "\<dots> \<le> a" by simp
  finally have "2 ^ nat (bitlen \<lfloor>a\<rfloor> - 1) \<le> a" by simp
  moreover have "1 \<le> bitlen \<lfloor>a\<rfloor>" using n by (simp add: bitlen_alt_def)
  ultimately show ?thesis using True by (simp add: expo_def power_int_def)
next
  case False
  assume a: "0 < a"
  with False have y: "1 < 1 / a" by simp
  then have n: "0 < \<lceil>1 / a\<rceil> - 1" by linarith
  from bitlen_bounds [OF n] have "\<lceil>1 / a\<rceil> - 1 < 2 ^ nat (bitlen (\<lceil>1 / a\<rceil> - 1))" by simp
  then have "\<lceil>1 / a\<rceil> \<le> 2 ^ nat (bitlen (\<lceil>1 / a\<rceil> - 1))" by simp
  then have "1 / a \<le> of_int (2 ^ nat (bitlen (\<lceil>1 / a\<rceil> - 1)))"
    by (simp only: ceiling_le_iff)
  then have "1 / a \<le> 2 ^ nat (bitlen (\<lceil>1 / a\<rceil> - 1))" by simp
  then have "1 / 2 ^ nat (bitlen (\<lceil>1 / a\<rceil> - 1)) \<le> a"
    using a by (simp add: field_simps)
  moreover have "0 \<le> bitlen (\<lceil>1 / a\<rceil> - 1)" by (rule bitlen_nonneg)
  ultimately show ?thesis using False
    by (auto simp add: expo_def power_int_def field_simps)
qed

lemma expo_upper: "0 < a \<Longrightarrow> a < 2 powi (expo a + 1)"
proof (cases "1 \<le> a")
  case True
  then have n: "0 < \<lfloor>a\<rfloor>" by simp
  from bitlen_bounds [OF n] have "\<lfloor>a\<rfloor> + 1 \<le> 2 ^ nat (bitlen \<lfloor>a\<rfloor>)" by simp
  then have "real_of_int (\<lfloor>a\<rfloor> + 1) \<le> of_int (2 ^ nat (bitlen \<lfloor>a\<rfloor>))"
    by (simp only: of_int_le_iff)
  then have "a < 2 ^ nat (bitlen \<lfloor>a\<rfloor>)" by simp linarith
  moreover have "0 \<le> bitlen \<lfloor>a\<rfloor>" by (rule bitlen_nonneg)
  ultimately show ?thesis using True by (simp add: expo_def power_int_def)
next
  case False
  assume a: "0 < a"
  with False have y: "1 < 1 / a" by simp
  then have n: "0 < \<lceil>1 / a\<rceil> - 1" by linarith
  have k: "1 \<le> bitlen (\<lceil>1 / a\<rceil> - 1)" using n by (simp add: bitlen_alt_def)
  from bitlen_bounds [OF n]
  have "(2::int) ^ nat (bitlen (\<lceil>1 / a\<rceil> - 1) - 1) \<le> \<lceil>1 / a\<rceil> - 1" by simp
  then have "real_of_int (2 ^ nat (bitlen (\<lceil>1 / a\<rceil> - 1) - 1)) \<le> of_int (\<lceil>1 / a\<rceil> - 1)"
    by (simp only: of_int_le_iff)
  then have "2 ^ nat (bitlen (\<lceil>1 / a\<rceil> - 1) - 1) < 1 / a" by simp linarith
  then have "a < 1 / 2 ^ nat (bitlen (\<lceil>1 / a\<rceil> - 1) - 1)"
    using a by (simp add: field_simps)
  moreover have "- bitlen (\<lceil>1 / a\<rceil> - 1) + 1 \<le> 0" using k by simp
  ultimately show ?thesis using False k
    by (cases "bitlen (\<lceil>1 / a\<rceil> - 1) = 1") (auto simp add: expo_def power_int_def field_simps)
qed

lemma expo_eqI:
  assumes "0 < a" and "2 powi e \<le> a" and "a < 2 powi (e + 1)"
  shows "expo a = e"
proof -
  have "(2::real) powi e < 2 powi (expo a + 1)"
    using assms(2) expo_upper [OF assms(1)] by simp
  then have "\<not> expo a + 1 \<le> e"
    using power_int_increasing [of "expo a + 1" e "2::real"] by auto
  moreover have "(2::real) powi expo a < 2 powi (e + 1)"
    using assms(3) expo_lower [OF assms(1)] by simp
  then have "\<not> e + 1 \<le> expo a"
    using power_int_increasing [of "e + 1" "expo a" "2::real"] by auto
  ultimately show ?thesis by simp
qed

lemma rne_of_int: "rne (of_int m) = m"
  by (simp add: rne_def)


lemma round64_pos_eqI:
  fixes a :: real
  assumes "0 < a" and "2 powi e \<le> a" and "a < 2 powi (e + 1)" and "- 1022 \<le> e"
    and "rne (a / 2 powi (e - 52)) = m" and "real_of_int m * 2 powi (e - 52) < 2 powi 1024"
  shows "round64 a = Finite (of_int m * 2 powi (e - 52))"
proof -
  have "expo a = e" using assms(1-3) by (rule expo_eqI)
  then have E: "max (expo \<bar>a\<bar>) (- 1022) = e" using assms(1,4) by simp
  have n: "\<not> 2 powi 1024 \<le> real_of_int m * 2 powi (e - 52)" using assms(6) by (simp only: not_le)
  show ?thesis
    unfolding round64_def Let_def E using assms(1) n
    by (simp only: assms(5) abs_of_pos if_False if_True less_irrefl [of "0::real"] order.strict_implies_not_eq [OF assms(1), symmetric])
qed

lemma round64_minus:
  "round64 (- r) = (case round64 r of Finite v \<Rightarrow> Finite (- v) | PosInf \<Rightarrow> NegInf
                    | NegInf \<Rightarrow> PosInf | NaN \<Rightarrow> NaN)"
  by (cases "r = 0"; cases "0 < r") (simp_all only: round64_def Let_def abs_minus_cancel
         neg_equal_0_iff_equal neg_0_less_iff_less if_True if_False pyfloat.case minus_zero
         not_less_iff_gr_or_eq [of 0 r] minus_minus, auto)

lemma round64_exact_pos:
  fixes a :: real
  assumes a: "a = of_int m * 2 powi e" and pos: "0 < m" and m: "m < 2 ^ 53"
    and lo: "- 1074 \<le> e" and hi: "e \<le> 971"
  shows "round64 a = Finite a"
proof -
  define E where "E = max (expo a) (- 1022)"
  have apos: "0 < a" using pos by (simp add: a)
  have "real_of_int m < 2 ^ 53" using m by (simp only: of_int_less_numeral_power_cancel_iff)
  then have "a < 2 ^ 53 * 2 powi e" unfolding a by (rule mult_strict_right_mono) simp
  also have "\<dots> = 2 powi 53 * 2 powi e" by (simp only: power_int_numeral)
  also have "\<dots> = 2 powi (e + 53)" by (simp add: power_int_add del: power_int_numeral)
  finally have up: "a < 2 powi (e + 53)" .
  have "(2::real) powi expo a < 2 powi (e + 53)" using expo_lower [OF apos] up by simp
  then have "\<not> e + 53 \<le> expo a" using power_int_increasing [of "e + 53" "expo a" "2::real"] by auto
  then have E: "E - 52 \<le> e" using lo by (simp add: E_def)
  define k where "k = nat (e - (E - 52))"
  have e: "e = (E - 52) + int k" using E by (simp add: k_def)
  have p: "(2::real) powi e = 2 powi (E - 52) * 2 ^ k" by (subst e) (simp add: power_int_add)
  have q0: "(2::real) powi (E - 52) \<noteq> 0" by simp
  have "a / 2 powi (E - 52) = of_int (m * 2 ^ k)" unfolding a p using q0 by simp
  then have rn: "rne (a / 2 powi (E - 52)) = m * 2 ^ k" by (simp only: rne_of_int)
  have v: "real_of_int (m * 2 ^ k) * 2 powi (E - 52) = a" unfolding a p by simp
  have "(2::real) powi (e + 53) \<le> 2 powi 1024" using hi by (intro power_int_increasing) auto
  then have fin: "\<not> 2 powi 1024 \<le> a" using up by (simp del: power_int_numeral)
  have ne: "a \<noteq> 0" using apos by simp
  show ?thesis
    unfolding round64_def Let_def abs_of_pos [OF apos] E_def [symmetric] rn v
    using fin apos ne by (simp only: if_False if_True)
qed

lemma round64_exact:
  fixes r :: real
  assumes r: "r = of_int m * 2 powi e" and m: "\<bar>m\<bar> < 2 ^ 53" and lo: "- 1074 \<le> e" and hi: "e \<le> 971"
  shows "round64 r = Finite r"
proof -
  consider "m = 0" | "0 < m" | "m < 0" by linarith
  then show ?thesis
  proof cases
    case 1
    then show ?thesis using r by (simp add: round64_def)
  next
    case 2
    then show ?thesis using round64_exact_pos [OF r _ _ lo hi] m by simp
  next
    case 3
    have "- r = of_int (- m) * 2 powi e" by (simp add: r)
    from round64_exact_pos [OF this _ _ lo hi] 3 m have "round64 (- r) = Finite (- r)" by simp
    then show ?thesis using round64_minus [of "- r"] by (simp only: minus_minus pyfloat.case)
  qed
qed

lemma round64_values:
  shows "round64 0 = Finite 0"
    and "round64 1 = Finite 1"
    and "round64 2 = Finite 2"
    and "round64 8 = Finite 8"
    and "round64 (- 8) = Finite (- 8)"
    and "round64 (1 / 2) = Finite (1 / 2)"
    and "round64 (- (1 / 2)) = Finite (- (1 / 2))"
    and "round64 (- (1 / 4)) = Finite (- (1 / 4))"
    and "round64 1152921504606846976 = Finite 1152921504606846976"
    and "round64 (- 9223372036854775808) = Finite (- 9223372036854775808)"
proof -
  show "round64 0 = Finite 0" by (simp add: round64_def)
  show "round64 1 = Finite 1" using round64_exact [of 1 1 0] by simp
  show "round64 2 = Finite 2" using round64_exact [of 2 2 0] by simp
  show "round64 8 = Finite 8" using round64_exact [of 8 8 0] by simp
  show "round64 (- 8) = Finite (- 8)" using round64_exact [of "- 8" "- 8" 0] by simp
  show "round64 (1 / 2) = Finite (1 / 2)" using round64_exact [of "1 / 2" 1 "- 1"] by simp
  show "round64 (- (1 / 2)) = Finite (- (1 / 2))"
    using round64_exact [of "- (1 / 2)" "- 1" "- 1"] by simp
  show "round64 (- (1 / 4)) = Finite (- (1 / 4))"
    using round64_exact [of "- (1 / 4)" "- 1" "- 2"] by simp
  show "round64 1152921504606846976 = Finite 1152921504606846976"
    using round64_exact [of 1152921504606846976 1 60] by simp
  show "round64 (- 9223372036854775808) = Finite (- 9223372036854775808)"
    using round64_exact [of "- 9223372036854775808" "- 1" 63] by simp
qed

text \<open>
  The literal 0.1 is not 1/10, and the rounding shows in the quotients of the images:
  0.4 - 0.1 is 0.30000000000000004, which divided by 0.1 is 3.0000000000000004, and
  0.25 / 0.1 is 2.5.
\<close>

lemma tenths_difference:
  "round64 (4 * tenth - tenth) = Finite (5404319552844596 / 2 ^ 54)"
  using round64_pos_eqI [of "4 * tenth - tenth" "- 2" 5404319552844596]
  by (simp add: rne_def tenth_def)

lemma tenths_quotient:
  "round64 ((5404319552844596 / 2 ^ 54) / tenth) = Finite (6755399441055745 / 2 ^ 51)"
  using round64_pos_eqI [of "(5404319552844596 / 2 ^ 54) / tenth" 1 6755399441055745]
  by (simp add: rne_def tenth_def)

lemma tenth_nonzero: "tenth \<noteq> 0"
  by (simp add: tenth_def)

lemma quarter_over_tenth: "round64 ((1 / 4) / tenth) = Finite (5 / 2)"
  using round64_pos_eqI [of "(1 / 4) / tenth" 1 5629499534213120]
  by (simp add: rne_def tenth_def)

lemmas eval_arith =
  py_quotient_def py_subtract_def py_true_divide_def fractional_index_def np_subtract_def
  np_true_divide_def py_le_np_def np_le_py_def float_div_def float_le_def to_double_def
  fits64_def wrap64_def round64_values

subsection \<open>Sample objects are what the constructors build\<close>

lemma ceiling_neg_half: "\<lceil>- (1 / 2) :: real\<rceil> = 0"
  by (simp add: ceiling_eq_iff)

lemma init_image_neg_step:
  "ResultsImage_init results_neg_step ''x'' ''y'' ''z'' False = Inr image_neg_step"
  by (simp add: ResultsImage_init_def results_neg_step_def image_neg_step_def and_then_def
      getattr_def axis_size_def eval_arith np_zeros2_def numeral_2_eq_2 ceiling_neg_half)

lemma init_scan_image:
  "ResultsImage_init scan_results ''x'' ''y'' ''v'' False = Inr scan_image"
  by (simp add: ResultsImage_init_def scan_results_def scan_image_def and_then_def
      getattr_def axis_size_def eval_arith np_zeros2_def)

lemma init_scan_image3:
  "Results3DImage_init scan_results ''v'' ''x'' ''y'' ''z'' False = Inr scan_image3"
  by (simp add: Results3DImage_init_def scan_results_def scan_image3_def and_then_def
      getattr_def axis_size_def eval_arith np_zeros3_def getitem0_def np_index_def)

lemma init_image_int64:
  "ResultsImage_init results_int64 ''x'' ''y'' ''z'' False = Inr image_int64"
  by (simp add: ResultsImage_init_def results_int64_def image_int64_def and_then_def
      getattr_def axis_size_def eval_arith np_zeros2_def)

subsection \<open>Rounding of the fractional index\<close>

text \<open>
  C1 fails on the code at a negative fractional index.  With an x axis from 0 to 1 and
  step -2 the constructor builds an image one pixel wide; the coordinate x = 0.5 lies in
  [start, end] and its fractional index is -0.25, which rounded to the nearest integer is
  0.  \<open>round_up\<close> tests \<open>x % 1 >= 0.5\<close>, which is 0.75 here, and adds one to \<open>int(x)\<close>,
  which truncates -0.25 to 0: \<open>find_img_index\<close> returns the x index 1, which is neither
  the nearest integer nor an index of the one-pixel axis.
\<close>

theorem round_up_truncates_negative_index:
  "ResultsImage_init results_neg_step ''x'' ''y'' ''z'' False = Inr image_neg_step
   \<and> ri_xsize image_neg_step = 1
   \<and> py_le_np (ri_xstart image_neg_step) (Float64 (1 / 2))
   \<and> np_le_py (Float64 (1 / 2)) (ri_xend image_neg_step)
   \<and> fractional_index (Float64 (1 / 2)) (ri_xstart image_neg_step) (ri_xstep image_neg_step)
       = Inr (Finite (- (1 / 4)))
   \<and> round_half_up (- (1 / 4)) = 0
   \<and> round_up (Finite (- (1 / 4))) = Inr 1
   \<and> find_img_index image_neg_step (Float64 (1 / 2)) (Float64 0) = Inr (1, 0)"
  by (simp add: init_image_neg_step)
    (simp add: find_img_index_def and_then_def image_neg_step_def round_up_def eval_arith
      py_mod1_def py_int_def round_half_up_def ceiling_eq_iff floor_eq_iff)

subsection \<open>The pixel array keeps its dimensions\<close>

lemma and_then_Inr_iff: "and_then m f = Inr v \<longleftrightarrow> (\<exists>a. m = Inr a \<and> f a = Inr v)"
  by (cases m) (simp_all add: and_then_def)

lemma np_index_less: "np_index n i = Inr k \<Longrightarrow> k < n"
  by (auto simp: np_index_def split: if_splits)

lemma shape2_update:
  assumes "j < length img" and "length r = length (img ! j)"
  shows "shape2 (img[j := r]) = shape2 img"
proof -
  have "map length (img[j := r]) = (map length img)[j := (map length img) ! j]"
    using assms by (simp add: map_update)
  then show ?thesis by (simp add: shape2_def)
qed

lemma setitem2_shape: "setitem2 img yidx xidx c = Inr img' \<Longrightarrow> shape2 img' = shape2 img"
  by (auto simp: setitem2_def and_then_Inr_iff dest!: np_index_less intro!: shape2_update)

lemma populate_row_shape:
  "populate_row cm zmin zmax s r = Inr img \<Longrightarrow> shape2 img = shape2 (ri_img_data s)"
  by (auto simp: populate_row_def and_then_Inr_iff dest: setitem2_shape)

lemma populate_frame:
  "\<exists>img. fst (populate cm zmin zmax s rs) = s\<lparr>ri_img_data := img\<rparr>
         \<and> shape2 img = shape2 (ri_img_data s)"
proof (induction rs arbitrary: s)
  case Nil
  show ?case by (rule exI [of _ "ri_img_data s"]) simp
next
  case (Cons r rs)
  show ?case
  proof (cases "populate_row cm zmin zmax s r")
    case (Inl e)
    then show ?thesis by (intro exI [of _ "ri_img_data s"]) simp
  next
    case (Inr img)
    from Cons.IH [of "s\<lparr>ri_img_data := img\<rparr>"] obtain img' where
      "fst (populate cm zmin zmax (s\<lparr>ri_img_data := img\<rparr>) rs) = s\<lparr>ri_img_data := img'\<rparr>"
      "shape2 img' = shape2 img" by auto
    with Inr populate_row_shape [OF Inr] show ?thesis by auto
  qed
qed

lemma populate_same_grid: "same_grid (fst (populate cm zmin zmax s rs)) s"
proof -
  obtain img where "fst (populate cm zmin zmax s rs) = s\<lparr>ri_img_data := img\<rparr>"
    and "shape2 img = shape2 (ri_img_data s)"
    using populate_frame by blast
  then show ?thesis by (simp add: same_grid_def)
qed

lemma update_data_same_grid: "same_grid (fst (update_data cm s)) s"
proof -
  define s1 where "s1 = (if ri_force_reload s then s\<lparr>ri_results := reload (ri_results s)\<rparr> else s)"
  define d where "d = res_data (ri_results s1)"
  have s1: "same_grid s1 s" by (simp add: s1_def same_grid_def)
  show ?thesis
  proof (cases "getcol d (ri_z s1)")
    case (Inl e)
    then have "fst (update_data cm s) = s1"
      by (simp add: update_data_def Let_def s1_def d_def)
    with s1 show ?thesis by simp
  next
    case (Inr zs)
    obtain s2 out where p: "populate cm (col_min zs) (col_max zs) s1 (iterrows d) = (s2, out)"
      by (cases "populate cm (col_min zs) (col_max zs) s1 (iterrows d)")
    have s2: "same_grid s2 s"
      using populate_same_grid [of cm "col_min zs" "col_max zs" s1 "iterrows d"] p s1
      by (simp add: same_grid_def)
    show ?thesis
    proof (cases out)
      case None
      then have "fst (update_data cm s) =
          emit_last d (s2\<lparr>ri_image := np_transpose (nat (ri_xsize s2)) (ri_img_data s2)\<rparr>)"
        using Inr p by (simp add: update_data_def Let_def s1_def d_def)
      with s2 show ?thesis
        by (simp add: same_grid_def emit_last_def split: sum.split)
    next
      case (Some e)
      then have "fst (update_data cm s) = s2"
        using Inr p by (simp add: update_data_def Let_def s1_def d_def)
      with s2 show ?thesis by simp
    qed
  qed
qed

lemma getattr_Inr: "getattr res n = Inr v \<longleftrightarrow> res_procedure res n = Some v"
  by (simp add: getattr_def split: option.split)

lemma axis_size_Inr:
  "axis_size a b c = Inr n \<longleftrightarrow> (\<exists>q. py_quotient a b c = Inr (Finite q) \<and> n = \<lceil>q\<rceil> + 1)"
proof (cases "py_quotient a b c")
  case (Inl e)
  then show ?thesis by (simp add: axis_size_def and_then_def)
next
  case (Inr q)
  then show ?thesis by (cases q) (auto simp: axis_size_def and_then_def)
qed

lemma np_zeros2_Inr:
  "np_zeros2 h w = Inr img \<longleftrightarrow>
     0 \<le> h \<and> 0 \<le> w \<and> img = replicate (nat h) (replicate (nat w) zero_rgba)"
  by (auto simp: np_zeros2_def)

lemma shape2_replicate: "shape2 (replicate h (replicate w c)) = (h, replicate h w)"
  by (simp add: shape2_def)

lemma init_image:
  assumes "ResultsImage_init res xn yn zn fr = Inr s"
  shows "res_procedure res (xn @ ''_start'') = Some (ri_xstart s)
     \<and> res_procedure res (xn @ ''_end'') = Some (ri_xend s)
     \<and> res_procedure res (xn @ ''_step'') = Some (ri_xstep s)
     \<and> res_procedure res (yn @ ''_start'') = Some (ri_ystart s)
     \<and> res_procedure res (yn @ ''_end'') = Some (ri_yend s)
     \<and> res_procedure res (yn @ ''_step'') = Some (ri_ystep s)
     \<and> image_inv s"
  using assms
  by (auto simp: ResultsImage_init_def and_then_Inr_iff getattr_Inr np_zeros2_Inr
      image_inv_def shape2_replicate)

lemma shape3_update:
  assumes "k < length img" and "shape2 p = shape2 (img ! k)"
  shows "shape3 (img[k := p]) = shape3 img"
proof -
  have "map shape2 (img[k := p]) = (map shape2 img)[k := (map shape2 img) ! k]"
    using assms by (simp add: map_update)
  then show ?thesis by (simp add: shape3_def)
qed

lemma setitem3_shape:
  "setitem3 img zidx yidx xidx c = Inr img' \<Longrightarrow> shape3 img' = shape3 img"
  by (auto simp: setitem3_def and_then_Inr_iff dest!: np_index_less setitem2_shape
      intro!: shape3_update)

lemma populate3_row_shape:
  "populate3_row cm d s r = Inr img \<Longrightarrow> shape3 img = shape3 (r3_img_data s)"
  by (auto simp: populate3_row_def and_then_Inr_iff dest: setitem3_shape)

lemma populate3_frame:
  "\<exists>img. fst (populate3 cm d s rs) = s\<lparr>r3_img_data := img\<rparr>
         \<and> shape3 img = shape3 (r3_img_data s)"
proof (induction rs arbitrary: s)
  case Nil
  show ?case by (rule exI [of _ "r3_img_data s"]) simp
next
  case (Cons r rs)
  show ?case
  proof (cases "populate3_row cm d s r")
    case (Inl e)
    then show ?thesis by (intro exI [of _ "r3_img_data s"]) simp
  next
    case (Inr img)
    from Cons.IH [of "s\<lparr>r3_img_data := img\<rparr>"] obtain img' where
      "fst (populate3 cm d (s\<lparr>r3_img_data := img\<rparr>) rs) = s\<lparr>r3_img_data := img'\<rparr>"
      "shape3 img' = shape3 img" by auto
    with Inr populate3_row_shape [OF Inr] show ?thesis by auto
  qed
qed

lemma update_data3_same_grid: "same_grid3 (fst (update_data3 cm s)) s"
proof -
  define s1 where "s1 = (if r3_force_reload s then s\<lparr>r3_results := reload (r3_results s)\<rparr> else s)"
  define d where "d = res_data (r3_results s1)"
  have s1: "same_grid3 s1 s" by (simp add: s1_def same_grid3_def)
  obtain s2 out where p: "populate3 cm d s1 (iterrows d) = (s2, out)"
    by (cases "populate3 cm d s1 (iterrows d)")
  obtain img where "s2 = s1\<lparr>r3_img_data := img\<rparr>" and "shape3 img = shape3 (r3_img_data s1)"
    using populate3_frame [of cm d s1 "iterrows d"] p by auto
  with s1 have s2: "same_grid3 s2 s" by (simp add: same_grid3_def)
  show ?thesis
  proof (cases out)
    case (Some e)
    then have "fst (update_data3 cm s) = s2"
      using p by (simp add: update_data3_def Let_def s1_def d_def)
    with s2 show ?thesis by simp
  next
    case None
    show ?thesis
    proof (cases "getitem0 (r3_img_data s2) (r3_shown_zidx s2)")
      case (Inl e)
      then have "fst (update_data3 cm s) = s2"
        using p None by (simp add: update_data3_def Let_def s1_def d_def)
      with s2 show ?thesis by simp
    next
      case (Inr plane)
      then have "fst (update_data3 cm s) =
          emit_last3 d (s2\<lparr>r3_image := np_transpose (nat (r3_xsize s2)) plane\<rparr>)"
        using p None by (simp add: update_data3_def Let_def s1_def d_def)
      with s2 show ?thesis
        by (simp add: same_grid3_def emit_last3_def split: sum.split)
    qed
  qed
qed

lemma np_zeros3_Inr:
  "np_zeros3 d h w = Inr img \<longleftrightarrow>
     0 \<le> d \<and> 0 \<le> h \<and> 0 \<le> w
     \<and> img = replicate (nat d) (replicate (nat h) (replicate (nat w) zero_rgba))"
  by (auto simp: np_zeros3_def)

lemma shape3_replicate:
  "shape3 (replicate d (replicate h (replicate w c))) = (d, replicate d (h, replicate h w))"
  by (simp add: shape3_def shape2_replicate)

lemma getitem0_zero_replicate:
  "getitem0 (replicate n p) 0 = Inr v \<longleftrightarrow> 0 < n \<and> v = p"
  by (auto simp: getitem0_def and_then_def np_index_def)

lemma init_image3:
  assumes "Results3DImage_init res var xn yn zn fr = Inr s"
  shows "res_procedure res (xn @ ''_start'') = Some (r3_xstart s)
     \<and> res_procedure res (xn @ ''_end'') = Some (r3_xend s)
     \<and> res_procedure res (xn @ ''_step'') = Some (r3_xstep s)
     \<and> res_procedure res (yn @ ''_start'') = Some (r3_ystart s)
     \<and> res_procedure res (yn @ ''_end'') = Some (r3_yend s)
     \<and> res_procedure res (yn @ ''_step'') = Some (r3_ystep s)
     \<and> res_procedure res (zn @ ''_start'') = Some (r3_zstart s)
     \<and> res_procedure res (zn @ ''_end'') = Some (r3_zend s)
     \<and> res_procedure res (zn @ ''_step'') = Some (r3_zstep s)
     \<and> image3_inv s"
  using assms
  by (auto simp: Results3DImage_init_def and_then_Inr_iff getattr_Inr np_zeros3_Inr
      image3_inv_def shape3_replicate getitem0_zero_replicate)

subsection \<open>Size of the pixel array and range of the indices\<close>

text \<open>
  C5: a \<open>ResultsImage\<close> that the constructor builds takes start, end and step of each
  axis from the procedure; its size per axis is what \<open>int(np.ceil((end - start) / step)) + 1\<close>
  gives, that is the ceiling of the float quotient (end - start) / step plus one, and its
  pixel array has ysize rows of xsize pixels (\<open>image_inv\<close>); \<open>update_data\<close>, whatever
  its outcome, leaves the axes, the sizes and the dimensions of the array as they were
  (\<open>same_grid\<close>).  The same holds for \<open>Results3DImage\<close> with its three axes.
\<close>

theorem pixel_grid_sized_at_construction_and_fixed:
  "(ResultsImage_init res xn yn zn fr = Inr s \<longrightarrow>
      res_procedure res (xn @ ''_start'') = Some (ri_xstart s)
      \<and> res_procedure res (xn @ ''_end'') = Some (ri_xend s)
      \<and> res_procedure res (xn @ ''_step'') = Some (ri_xstep s)
      \<and> res_procedure res (yn @ ''_start'') = Some (ri_ystart s)
      \<and> res_procedure res (yn @ ''_end'') = Some (ri_yend s)
      \<and> res_procedure res (yn @ ''_step'') = Some (ri_ystep s)
      \<and> image_inv s)
   \<and> (axis_size a b c = Inr n
        \<longleftrightarrow> (\<exists>q. py_quotient a b c = Inr (Finite q) \<and> n = \<lceil>q\<rceil> + 1))
   \<and> same_grid (fst (update_data cm s')) s'
   \<and> (Results3DImage_init res3 var xn3 yn3 zn3 fr3 = Inr t \<longrightarrow>
      res_procedure res3 (xn3 @ ''_start'') = Some (r3_xstart t)
      \<and> res_procedure res3 (xn3 @ ''_end'') = Some (r3_xend t)
      \<and> res_procedure res3 (xn3 @ ''_step'') = Some (r3_xstep t)
      \<and> res_procedure res3 (yn3 @ ''_start'') = Some (r3_ystart t)
      \<and> res_procedure res3 (yn3 @ ''_end'') = Some (r3_yend t)
      \<and> res_procedure res3 (yn3 @ ''_step'') = Some (r3_ystep t)
      \<and> res_procedure res3 (zn3 @ ''_start'') = Some (r3_zstart t)
      \<and> res_procedure res3 (zn3 @ ''_end'') = Some (r3_zend t)
      \<and> res_procedure res3 (zn3 @ ''_step'') = Some (r3_zstep t)
      \<and> image3_inv t)
   \<and> same_grid3 (fst (update_data3 cm t')) t'"
  using init_image [of res xn yn zn fr s] init_image3 [of res3 var xn3 yn3 zn3 fr3 t]
    update_data_same_grid [of cm s'] update_data3_same_grid [of cm t']
    axis_size_Inr [of a b c n]
  by blast

theorem pixel_grid_sized_at_construction_and_fixed_witness:
  "ResultsImage_init scan_results ''x'' ''y'' ''v'' False = Inr scan_image
   \<and> ri_xsize scan_image = 3 \<and> ri_ysize scan_image = 3
   \<and> shape2 (ri_img_data scan_image) = (3, [3, 3, 3])
   \<and> shape2 (ri_img_data (fst (update_data grey_ramp scan_image))) = (3, [3, 3, 3])
   \<and> Results3DImage_init scan_results ''v'' ''x'' ''y'' ''z'' False = Inr scan_image3
   \<and> r3_zsize scan_image3 = 3
   \<and> shape3 (r3_img_data (fst (update_data3 grey_ramp scan_image3)))
       = (3, [(3, [3, 3, 3]), (3, [3, 3, 3]), (3, [3, 3, 3])])
   \<and> py_quotient (PyFloat tenth) (PyFloat (4 * tenth)) (PyFloat tenth)
       = Inr (Finite (6755399441055745 / 2 ^ 51))
   \<and> axis_size (PyFloat tenth) (PyFloat (4 * tenth)) (PyFloat tenth) = Inr 5"
proof -
  note T = pixel_grid_sized_at_construction_and_fixed
      [of scan_results "''x''" "''y''" "''v''" False scan_image
          "PyFloat tenth" "PyFloat (4 * tenth)" "PyFloat tenth" 5 grey_ramp scan_image
          scan_results "''v''" "''x''" "''y''" "''z''" False scan_image3 scan_image3]
  have q: "py_quotient (PyFloat tenth) (PyFloat (4 * tenth)) (PyFloat tenth)
      = Inr (Finite (6755399441055745 / 2 ^ 51))"
    by (simp only: py_quotient_def py_subtract_def py_true_divide_def and_then_def
        pynum.case sum.case difference.case pyfloat.case tenths_difference float_div_def
        tenths_quotient tenth_nonzero if_False)
  have c: "(5::int) = \<lceil>6755399441055745 / 2 ^ 51 :: real\<rceil> + 1"
    by (simp add: ceiling_eq_iff)
  have "axis_size (PyFloat tenth) (PyFloat (4 * tenth)) (PyFloat tenth) = Inr 5"
    using T q c by blast
  moreover have "same_grid (fst (update_data grey_ramp scan_image)) scan_image
      \<and> same_grid3 (fst (update_data3 grey_ramp scan_image3)) scan_image3"
    using T by simp
  then have "shape2 (ri_img_data (fst (update_data grey_ramp scan_image)))
        = shape2 (ri_img_data scan_image)
      \<and> shape3 (r3_img_data (fst (update_data3 grey_ramp scan_image3)))
        = shape3 (r3_img_data scan_image3)"
    by (simp add: same_grid_def same_grid3_def)
  ultimately show ?thesis
    by (simp add: init_scan_image init_scan_image3 q)
      (simp add: scan_image_def scan_image3_def shape2_def shape3_def numeral_3_eq_3)
qed

text \<open>
  C9 fails on the code for a snapshot of integers.  The procedure has the integer
  parameters x_start = -2^62, x_end = 2^62 and x_step = 2^60, so start <= end and
  step > 0, and the constructor builds an x axis of 9 pixels.  For the int64 coordinate
  x = 2^62, which lies in [start, end], the difference x - start is 2^63, which wraps
  around to -2^63, and \<open>find_img_index\<close> returns the x index -8, below 0.
\<close>

theorem find_img_index_int64_difference_wraps:
  "ResultsImage_init results_int64 ''x'' ''y'' ''z'' False = Inr image_int64
   \<and> ri_xstart image_int64 = PyInt (- (2 ^ 62)) \<and> ri_xend image_int64 = PyInt (2 ^ 62)
   \<and> ri_xstep image_int64 = PyInt (2 ^ 60) \<and> ri_xsize image_int64 = 9
   \<and> py_le_np (ri_xstart image_int64) (Int64 (2 ^ 62))
   \<and> np_le_py (Int64 (2 ^ 62)) (ri_xend image_int64)
   \<and> np_subtract (Int64 (2 ^ 62)) (ri_xstart image_int64) = Inr (IntDiff (- (2 ^ 63)))
   \<and> find_img_index image_int64 (Int64 (2 ^ 62)) (Int64 0) = Inr (- 8, 0)"
  by (simp add: init_image_int64)
    (simp add: find_img_index_def and_then_def image_int64_def round_up_def eval_arith
      py_mod1_def py_int_def)

subsection \<open>BufferCurve\<close>

lemma append_raises_unchanged: "snd (append cast x y c) = Some e \<Longrightarrow> fst (append cast x y c) = c"
  by (auto simp: append_def Let_def split: option.splits if_splits sum.splits)

lemma append_unprepared:
  "bc_buffer c = None
     \<Longrightarrow> append cast x y c = (c, Some (Exception ''BufferCurve buffer must be prepared''))"
  by (simp add: append_def)

lemma append_full:
  "bc_buffer c = Some buf \<Longrightarrow> bc_ptr c = Some p \<Longrightarrow> int (length buf) \<le> p
     \<Longrightarrow> append cast x y c = (c, Some (Exception ''BufferCurve overflow''))"
  by (simp add: append_def)

lemma append_ok:
  assumes "bc_buffer c = Some buf" and "bc_ptr c = Some p" and "0 \<le> p" and "p < int (length buf)"
  shows "append cast x y c =
     (c\<lparr>bc_buffer := Some (buf[nat p := (cast x, cast y)]), bc_shown := take (nat p) buf,
        bc_ptr := Some (p + 1), bc_emits := Suc (bc_emits c)\<rparr>, None)"
  using assms by (simp add: append_def np_index_def Let_def py_slice_to_def min_def)

lemma append_inv: "bc_inv c \<Longrightarrow> bc_inv (fst (append cast x y c))"
  by (auto simp: append_def bc_inv_def np_index_def Let_def split: option.splits if_splits)

lemma prepare_inv: "bc_inv c \<Longrightarrow> bc_inv (fst (prepare junk n c))"
  by (auto simp: prepare_def bc_inv_def split: option.splits)

lemma run_ops_inv: "bc_inv c \<Longrightarrow> bc_inv (run_ops junk cast ops c)"
proof (induction ops arbitrary: c)
  case Nil
  then show ?case by simp
next
  case (Cons op ops)
  then show ?case by (cases op) (simp_all add: append_inv prepare_inv)
qed

lemma init_inv: "bc_inv BufferCurve_init"
  by (simp add: bc_inv_def BufferCurve_init_def)

lemma run_two_points: "run_ops junk0 id two_points BufferCurve_init = full_buffer"
  by (simp add: two_points_def BufferCurve_init_def append_def prepare_def np_index_def
      py_slice_to_def junk0_def Let_def numeral_2_eq_2 full_buffer_def)

text \<open>
  C10: \<open>BufferCurve.append\<close> raises when the buffer has not been prepared and when it is
  full; an append that raises leaves the curve, and so the write pointer, as it was; an
  append into a buffer with room succeeds, writes the point at the pointer, increments the
  pointer by exactly one and displays the first ptr-before-increment rows, which exclude
  the point just appended; after any sequence of \<open>prepare\<close> and \<open>append\<close> calls on a new
  curve the pointer satisfies 0 <= ptr <= buffer size (\<open>bc_inv\<close>).
\<close>

theorem append_guards_pointer_and_display:
  "(snd (append cast x y c) = Some e \<longrightarrow> fst (append cast x y c) = c)
   \<and> (bc_buffer c = None \<longrightarrow>
        snd (append cast x y c) = Some (Exception ''BufferCurve buffer must be prepared''))
   \<and> (bc_buffer c = Some buf \<and> bc_ptr c = Some p \<and> int (length buf) \<le> p \<longrightarrow>
        snd (append cast x y c) = Some (Exception ''BufferCurve overflow''))
   \<and> (bc_buffer c = Some buf \<and> bc_ptr c = Some p \<and> 0 \<le> p \<and> p < int (length buf) \<longrightarrow>
        snd (append cast x y c) = None
        \<and> bc_ptr (fst (append cast x y c)) = Some (p + 1)
        \<and> bc_buffer (fst (append cast x y c)) = Some (buf[nat p := (cast x, cast y)])
        \<and> bc_shown (fst (append cast x y c)) = take (nat p) buf)
   \<and> bc_inv (run_ops junk cast ops BufferCurve_init)"
  using append_raises_unchanged [of cast x y c e] append_unprepared [of c cast x y]
    append_full [of c buf p cast x y] append_ok [of c buf p cast x y]
    run_ops_inv [OF init_inv, of junk cast ops]
  by simp

theorem append_guards_pointer_and_display_witness:
  "snd (append id 1 2 BufferCurve_init) = Some (Exception ''BufferCurve buffer must be prepared'')
   \<and> fst (append id 1 2 BufferCurve_init) = BufferCurve_init
   \<and> run_ops junk0 id two_points BufferCurve_init = full_buffer
   \<and> snd (append id 5 6 full_buffer) = Some (Exception ''BufferCurve overflow'')
   \<and> fst (append id 5 6 full_buffer) = full_buffer
   \<and> snd (append id 3 4 (full_buffer\<lparr>bc_ptr := Some 1\<rparr>)) = None
   \<and> bc_ptr (fst (append id 3 4 (full_buffer\<lparr>bc_ptr := Some 1\<rparr>))) = Some 2
   \<and> bc_shown (fst (append id 3 4 (full_buffer\<lparr>bc_ptr := Some 1\<rparr>))) = [(1, 2)]
   \<and> bc_inv full_buffer"
proof -
  have unprepared: "bc_buffer BufferCurve_init = None"
    by (simp add: BufferCurve_init_def)
  have full: "bc_buffer full_buffer = Some [(1, 2), (3, 4)] \<and> bc_ptr full_buffer = Some 2
      \<and> int (length [(1 :: real, 2 :: real), (3, 4)]) \<le> 2"
    by (simp add: full_buffer_def)
  have room: "bc_buffer (full_buffer\<lparr>bc_ptr := Some 1\<rparr>) = Some [(1, 2), (3, 4)]
      \<and> bc_ptr (full_buffer\<lparr>bc_ptr := Some 1\<rparr>) = Some 1
      \<and> (0 :: int) \<le> 1 \<and> 1 < int (length [(1 :: real, 2 :: real), (3, 4)])"
    by (simp add: full_buffer_def)
  note t = append_guards_pointer_and_display
  from t [of id 1 2 BufferCurve_init "Exception ''BufferCurve buffer must be prepared''"]
    unprepared
  have a: "snd (append id 1 2 BufferCurve_init)
        = Some (Exception ''BufferCurve buffer must be prepared'')
      \<and> fst (append id 1 2 BufferCurve_init) = BufferCurve_init"
    by simp
  from t [of id 5 6 full_buffer "Exception ''BufferCurve overflow''" "[(1, 2), (3, 4)]" 2] full
  have b: "snd (append id 5 6 full_buffer) = Some (Exception ''BufferCurve overflow'')
      \<and> fst (append id 5 6 full_buffer) = full_buffer"
    by simp
  from t [of id 3 4 "full_buffer\<lparr>bc_ptr := Some 1\<rparr>" _ "[(1, 2), (3, 4)]" 1] room
  have c: "snd (append id 3 4 (full_buffer\<lparr>bc_ptr := Some 1\<rparr>)) = None
      \<and> bc_ptr (fst (append id 3 4 (full_buffer\<lparr>bc_ptr := Some 1\<rparr>))) = Some 2
      \<and> bc_shown (fst (append id 3 4 (full_buffer\<lparr>bc_ptr := Some 1\<rparr>))) = [(1, 2)]"
    by simp
  from t [where junk = junk0 and cast = id and ops = two_points]
  have d: "bc_inv full_buffer"
    by (simp add: run_two_points)
  from a b c d show ?thesis by (simp add: run_two_points)
qed

subsection \<open>ResultsCurve and PlotFrame\<close>

lemma curve_update_results:
  "rc_results (fst (curve_update_data c)) =
     (if rc_force_reload c then reload (rc_results c) else rc_results c)"
  by (simp add: curve_update_data_def Let_def split: sum.split)

lemma curve_update_ok:
  assumes "rc_x c = Some xn" and "rc_y c = Some yn"
    and "fr_col (curve_snapshot c) xn = Some f" and "fr_col (curve_snapshot c) yn = Some g"
  shows "snd (curve_update_data c) = None
     \<and> rc_shown (fst (curve_update_data c)) =
         (map f [0 ..< fr_nrows (curve_snapshot c)], map g [0 ..< fr_nrows (curve_snapshot c)])"
  using assms
  by (cases "rc_force_reload c")
    (simp_all add: curve_update_data_def curve_snapshot_def Let_def getcol_opt_def getcol_def)

lemma curve_update_missing_x:
  assumes "rc_x c = Some n" and "fr_col (curve_snapshot c) n = None"
  shows "snd (curve_update_data c) = Some (KeyError n)
     \<and> rc_shown (fst (curve_update_data c)) = rc_shown c"
  using assms
  by (cases "rc_force_reload c")
    (simp_all add: curve_update_data_def curve_snapshot_def Let_def getcol_opt_def getcol_def)

lemma curve_update_missing_y:
  assumes "rc_x c = Some xn" and "fr_col (curve_snapshot c) xn = Some f"
    and "rc_y c = Some n" and "fr_col (curve_snapshot c) n = None"
  shows "snd (curve_update_data c) = Some (KeyError n)
     \<and> rc_shown (fst (curve_update_data c)) = rc_shown c"
  using assms
  by (cases "rc_force_reload c")
    (simp_all add: curve_update_data_def curve_snapshot_def Let_def getcol_opt_def getcol_def)

lemma curve_snapshot_rebind [simp]:
  "curve_snapshot (c\<lparr>rc_x := a\<rparr>) = curve_snapshot c"
  "curve_snapshot (c\<lparr>rc_y := a\<rparr>) = curve_snapshot c"
  by (simp_all add: curve_snapshot_def)

lemma change_x_axis_missing:
  assumes "pf_items f = c # cs" and "fr_col (curve_snapshot c) n = None"
  shows "snd (change_x_axis search sub (Some n) f) = Some (KeyError n)"
proof -
  have "snd (curve_update_data (c\<lparr>rc_x := Some n\<rparr>)) = Some (KeyError n)"
    using curve_update_missing_x [of "c\<lparr>rc_x := Some n\<rparr>" n] assms(2) by simp
  then show ?thesis using assms(1)
    by (cases "curve_update_data (c\<lparr>rc_x := Some n\<rparr>)") (simp add: change_x_axis_def)
qed

lemma change_y_axis_missing:
  assumes "pf_items f = c # cs" and "fr_col (curve_snapshot c) n = None"
  shows "snd (change_y_axis search sub (Some n) f) \<noteq> None"
proof -
  have "snd (curve_update_data (c\<lparr>rc_y := Some n\<rparr>)) \<noteq> None"
    using assms(2)
    by (auto simp: curve_update_data_def curve_snapshot_def Let_def getcol_opt_def getcol_def
        split: sum.splits option.splits if_splits)
  then show ?thesis using assms(1)
    by (cases "curve_update_data (c\<lparr>rc_y := Some n\<rparr>)") (auto simp: change_y_axis_def)
qed

lemma parse_axis_None: "parse_axis search sub None = (None, None)"
  by (simp add: parse_axis_def)

lemma scan_columns:
  "fr_col scan_frame ''x'' = Some (\<lambda>i. [0, 1, 5 / 2] ! i)"
  "fr_col scan_frame ''v'' = Some (\<lambda>i. [10, 30, 20] ! i)"
  "fr_col scan_frame ''t'' = None"
  "fr_nrows scan_frame = 3"
  by (simp_all add: scan_frame_def)

lemma upt_3: "[0 ..< 3] = [0, 1, 2]"
  by (simp add: numeral_3_eq_3 upt_rec)

text \<open>
  C8: \<open>ResultsCurve.update_data\<close> calls \<open>results.reload()\<close> exactly when the curve has
  \<open>force_reload\<close> set (the results object has then received one more reload, and is left
  untouched otherwise), and, the x and y columns being columns of the snapshot it reads,
  it sets the displayed series to these two complete columns, whatever was displayed
  before.
\<close>

theorem curve_update_data_resets_series:
  "res_reloads (rc_results (fst (curve_update_data c)))
     = res_reloads (rc_results c) + (if rc_force_reload c then 1 else 0)
   \<and> (rc_force_reload c \<longrightarrow> rc_results (fst (curve_update_data c)) = reload (rc_results c))
   \<and> (\<not> rc_force_reload c \<longrightarrow> rc_results (fst (curve_update_data c)) = rc_results c)
   \<and> (rc_x c = Some xn \<and> rc_y c = Some yn
       \<and> fr_col (curve_snapshot c) xn = Some f \<and> fr_col (curve_snapshot c) yn = Some g \<longrightarrow>
      snd (curve_update_data c) = None
      \<and> rc_shown (fst (curve_update_data c)) =
          (map f [0 ..< fr_nrows (curve_snapshot c)], map g [0 ..< fr_nrows (curve_snapshot c)]))"
  using curve_update_results [of c] curve_update_ok [of c xn yn f g]
  by (simp add: reload_def)

theorem curve_update_data_resets_series_witness:
  "rc_force_reload (ResultsCurve_init stale_results (Some ''x'') (Some ''v'') True)
   \<and> res_data stale_results = empty_frame
   \<and> snd (curve_update_data (ResultsCurve_init stale_results (Some ''x'') (Some ''v'') True)) = None
   \<and> rc_shown (fst (curve_update_data (ResultsCurve_init stale_results (Some ''x'') (Some ''v'') True)))
       = ([0, 1, 5 / 2], [10, 30, 20])
   \<and> res_reloads (rc_results (fst (curve_update_data
         (ResultsCurve_init stale_results (Some ''x'') (Some ''v'') True)))) = 1
   \<and> \<not> rc_force_reload (ResultsCurve_init scan_results (Some ''x'') (Some ''v'') False)
   \<and> rc_results (fst (curve_update_data (ResultsCurve_init scan_results (Some ''x'') (Some ''v'') False)))
       = scan_results
   \<and> rc_shown (fst (curve_update_data (ResultsCurve_init scan_results (Some ''x'') (Some ''v'') False)))
       = ([0, 1, 5 / 2], [10, 30, 20])"
proof -
  let ?c1 = "ResultsCurve_init stale_results (Some ''x'') (Some ''v'') True"
  let ?c2 = "ResultsCurve_init scan_results (Some ''x'') (Some ''v'') False"
  have snap: "curve_snapshot ?c1 = scan_frame" "curve_snapshot ?c2 = scan_frame"
    by (simp_all add: curve_snapshot_def ResultsCurve_init_def scan_results_def stale_results_def
        reload_def)
  have h1: "rc_force_reload ?c1 \<and> rc_x ?c1 = Some ''x'' \<and> rc_y ?c1 = Some ''v''
      \<and> fr_col (curve_snapshot ?c1) ''x'' = Some (\<lambda>i. [0, 1, 5 / 2] ! i)
      \<and> fr_col (curve_snapshot ?c1) ''v'' = Some (\<lambda>i. [10, 30, 20] ! i)"
    by (simp add: snap scan_columns) (simp add: ResultsCurve_init_def)
  have h2: "\<not> rc_force_reload ?c2 \<and> rc_x ?c2 = Some ''x'' \<and> rc_y ?c2 = Some ''v''
      \<and> fr_col (curve_snapshot ?c2) ''x'' = Some (\<lambda>i. [0, 1, 5 / 2] ! i)
      \<and> fr_col (curve_snapshot ?c2) ''v'' = Some (\<lambda>i. [10, 30, 20] ! i)"
    by (simp add: snap scan_columns) (simp add: ResultsCurve_init_def)
  note t = curve_update_data_resets_series
  from t [where c = ?c1 and xn = "''x''" and yn = "''v''"
      and f = "\<lambda>i. [0, 1, 5 / 2] ! i" and g = "\<lambda>i. [10, 30, 20] ! i"] h1
  have a0: "res_reloads (rc_results (fst (curve_update_data ?c1)))
        = res_reloads (rc_results ?c1) + 1
      \<and> snd (curve_update_data ?c1) = None
      \<and> rc_shown (fst (curve_update_data ?c1)) =
          (map (\<lambda>i. [0, 1, 5 / 2] ! i) [0 ..< fr_nrows (curve_snapshot ?c1)],
           map (\<lambda>i. [10, 30, 20] ! i) [0 ..< fr_nrows (curve_snapshot ?c1)])"
    by (simp add: reload_def)
  have "res_reloads (rc_results ?c1) = 0"
    by (simp add: ResultsCurve_init_def stale_results_def scan_results_def)
  with a0 have a: "snd (curve_update_data ?c1) = None
      \<and> rc_shown (fst (curve_update_data ?c1)) = ([0, 1, 5 / 2], [10, 30, 20])
      \<and> res_reloads (rc_results (fst (curve_update_data ?c1))) = 1"
    by (simp add: snap scan_columns upt_3)
  from t [where c = ?c2 and xn = "''x''" and yn = "''v''"
      and f = "\<lambda>i. [0, 1, 5 / 2] ! i" and g = "\<lambda>i. [10, 30, 20] ! i"] h2
  have b0: "rc_results (fst (curve_update_data ?c2)) = rc_results ?c2
      \<and> rc_shown (fst (curve_update_data ?c2)) =
          (map (\<lambda>i. [0, 1, 5 / 2] ! i) [0 ..< fr_nrows (curve_snapshot ?c2)],
           map (\<lambda>i. [10, 30, 20] ! i) [0 ..< fr_nrows (curve_snapshot ?c2)])"
    by simp
  have "rc_results ?c2 = scan_results"
    by (simp add: ResultsCurve_init_def)
  with b0 have b: "rc_results (fst (curve_update_data ?c2)) = scan_results
      \<and> rc_shown (fst (curve_update_data ?c2)) = ([0, 1, 5 / 2], [10, 30, 20])"
    by (simp add: snap scan_columns upt_3)
  from a b h1 h2 show ?thesis by (simp add: stale_results_def)
qed

subsection \<open>Colours of the image\<close>


lemma find_img_index_img_data [simp]:
  "find_img_index (s\<lparr>ri_img_data := img\<rparr>) x y = find_img_index s x y"
  by (simp add: find_img_index_def)







lemma length_iterrows [simp]: "length (iterrows d) = fr_nrows d"
  by (simp add: iterrows_def)




lemma reloaded_fields [simp]:
  "ri_x (reloaded s) = ri_x s" "ri_y (reloaded s) = ri_y s" "ri_z (reloaded s) = ri_z s"
  "ri_img_data (reloaded s) = ri_img_data s"
  "ri_emitted (reloaded s) = ri_emitted s" "ri_printed (reloaded s) = ri_printed s"
  by (simp_all add: reloaded_def)

lemma find_img_index_reloaded [simp]: "find_img_index (reloaded s) x y = find_img_index s x y"
  by (cases "ri_force_reload s") (simp_all add: reloaded_def find_img_index_def cong: if_cong)

lemma pixel_of_reloaded [simp]: "pixel_of (reloaded s) x y = pixel_of s x y"
  by (simp add: pixel_of_def cong: sum.case_cong)

lemma update_data_unfold:
  "update_data cm s =
     (case getcol (image_snapshot s) (ri_z s) of
        Inl e \<Rightarrow> (reloaded s, Some e)
      | Inr zs \<Rightarrow>
          (case populate cm (col_min zs) (col_max zs) (reloaded s) (iterrows (image_snapshot s)) of
             (s2, Some e) \<Rightarrow> (s2, Some e)
           | (s2, None) \<Rightarrow>
               (emit_last (image_snapshot s)
                  (s2\<lparr>ri_image := np_transpose (nat (ri_xsize s2)) (ri_img_data s2)\<rparr>),
                None)))"
  by (cases "ri_force_reload s")
    (simp_all add: update_data_def image_snapshot_def reloaded_def Let_def
      cong: sum.case_cong prod.case_cong option.case_cong)

lemma emit_last_img_data [simp]: "ri_img_data (emit_last d s) = ri_img_data s"
  by (simp add: emit_last_def split: sum.split)











subsection \<open>The emit of the final point\<close>

lemma emit_last_eq:
  "ri_emitted (emit_last d s) = emitted_after d (ri_x s) (ri_y s) (ri_emitted s)"
  "ri_printed (emit_last d s) = printed_after d (ri_x s) (ri_y s) (ri_printed s)"
  by (simp_all add: emit_last_def emitted_after_def printed_after_def split: sum.split)

lemma emit_last3_eq:
  "r3_emitted (emit_last3 d s) = emitted_after d (r3_x s) (r3_y s) (r3_emitted s)"
  "r3_printed (emit_last3 d s) = printed_after d (r3_x s) (r3_y s) (r3_printed s)"
  by (simp_all add: emit_last3_def emitted_after_def printed_after_def split: sum.split)

lemma update_data_emits:
  assumes "getcol (image_snapshot s) (ri_z s) = Inr zs"
    and "snd (populate cm (col_min zs) (col_max zs) (reloaded s) (iterrows (image_snapshot s))) = None"
  shows "snd (update_data cm s) = None
     \<and> ri_emitted (fst (update_data cm s))
         = emitted_after (image_snapshot s) (ri_x s) (ri_y s) (ri_emitted s)
     \<and> ri_printed (fst (update_data cm s))
         = printed_after (image_snapshot s) (ri_x s) (ri_y s) (ri_printed s)"
proof -
  let ?p = "populate cm (col_min zs) (col_max zs) (reloaded s) (iterrows (image_snapshot s))"
  obtain img where "fst ?p = (reloaded s)\<lparr>ri_img_data := img\<rparr>"
    using populate_frame [of cm "col_min zs" "col_max zs" "reloaded s" "iterrows (image_snapshot s)"]
    by blast
  with assms(2) have "?p = ((reloaded s)\<lparr>ri_img_data := img\<rparr>, None)"
    by (cases ?p) simp
  with assms(1) show ?thesis
    by (simp add: update_data_unfold emit_last_eq)
qed

lemma update_data3_unfold:
  "update_data3 cm s =
     (case populate3 cm (image3_snapshot s) (reloaded3 s) (iterrows (image3_snapshot s)) of
        (s2, Some e) \<Rightarrow> (s2, Some e)
      | (s2, None) \<Rightarrow>
          (case getitem0 (r3_img_data s2) (r3_shown_zidx s2) of
             Inl e \<Rightarrow> (s2, Some e)
           | Inr plane \<Rightarrow>
               (emit_last3 (image3_snapshot s)
                  (s2\<lparr>r3_image := np_transpose (nat (r3_xsize s2)) plane\<rparr>), None)))"
  by (cases "r3_force_reload s")
    (simp_all add: update_data3_def image3_snapshot_def reloaded3_def Let_def
      cong: sum.case_cong prod.case_cong option.case_cong)

lemma reloaded3_fields [simp]:
  "r3_x (reloaded3 s) = r3_x s" "r3_y (reloaded3 s) = r3_y s"
  "r3_shown_zidx (reloaded3 s) = r3_shown_zidx s"
  "r3_emitted (reloaded3 s) = r3_emitted s" "r3_printed (reloaded3 s) = r3_printed s"
  by (simp_all add: reloaded3_def)

lemma update_data3_emits:
  assumes "populate3 cm (image3_snapshot s) (reloaded3 s) (iterrows (image3_snapshot s)) = (s2, None)"
    and "getitem0 (r3_img_data s2) (r3_shown_zidx s) = Inr plane"
  shows "snd (update_data3 cm s) = None
     \<and> r3_emitted (fst (update_data3 cm s))
         = emitted_after (image3_snapshot s) (r3_x s) (r3_y s) (r3_emitted s)
     \<and> r3_printed (fst (update_data3 cm s))
         = printed_after (image3_snapshot s) (r3_x s) (r3_y s) (r3_printed s)"
proof -
  obtain img where "s2 = (reloaded3 s)\<lparr>r3_img_data := img\<rparr>"
    using populate3_frame [of cm "image3_snapshot s" "reloaded3 s" "iterrows (image3_snapshot s)"]
      assms(1) by auto
  with assms show ?thesis
    by (simp add: update_data3_unfold emit_last3_eq)
qed

text \<open>
  C7: when the code of \<open>ResultsImage.update_data\<close> before the final-point emit has
  raised nothing (the z column exists and the loop over the rows has ended normally),
  \<open>update_data\<close> returns normally whatever reading the last (x, y) sample does: it emits
  \<open>dataUpdated\<close> once, with the last sample when that can be read, and otherwise with
  (0, 0), the exception being printed and not propagated.  The same holds for
  \<open>Results3DImage.update_data\<close> once its loop and the selection of the shown plane
  have raised nothing.
\<close>

theorem final_point_emit_never_raises:
  "(getcol (image_snapshot s) (ri_z s) = Inr zs
    \<and> snd (populate cm (col_min zs) (col_max zs) (reloaded s) (iterrows (image_snapshot s))) = None
    \<longrightarrow> snd (update_data cm s) = None
      \<and> ri_emitted (fst (update_data cm s))
          = emitted_after (image_snapshot s) (ri_x s) (ri_y s) (ri_emitted s)
      \<and> ri_printed (fst (update_data cm s))
          = printed_after (image_snapshot s) (ri_x s) (ri_y s) (ri_printed s))
   \<and> (populate3 cm (image3_snapshot t) (reloaded3 t) (iterrows (image3_snapshot t)) = (t2, None)
      \<and> getitem0 (r3_img_data t2) (r3_shown_zidx t) = Inr plane
    \<longrightarrow> snd (update_data3 cm t) = None
      \<and> r3_emitted (fst (update_data3 cm t))
          = emitted_after (image3_snapshot t) (r3_x t) (r3_y t) (r3_emitted t)
      \<and> r3_printed (fst (update_data3 cm t))
          = printed_after (image3_snapshot t) (r3_x t) (r3_y t) (r3_printed t))"
  using update_data_emits [of s zs cm] update_data3_emits [of cm t t2 plane]
  by blast

lemma idle_snapshots:
  "image_snapshot idle_image = idle_frame" "image3_snapshot idle_image3 = idle_frame"
  by (simp_all add: image_snapshot_def reloaded_def idle_image_def scan_image_def
      image3_snapshot_def reloaded3_def idle_image3_def scan_image3_def)

lemma idle_fields:
  "ri_x idle_image = ''x''" "ri_y idle_image = ''y''" "ri_z idle_image = ''v''"
  "ri_emitted idle_image = []" "ri_printed idle_image = []"
  "r3_x idle_image3 = ''x''" "r3_y idle_image3 = ''y''" "r3_shown_zidx idle_image3 = 0"
  "r3_emitted idle_image3 = []" "r3_printed idle_image3 = []"
  by (simp_all add: idle_image_def scan_image_def idle_image3_def scan_image3_def)

lemma idle_frame_facts:
  "iterrows idle_frame = []" "getcol idle_frame ''v'' = Inr []"
  "last_sample idle_frame ''x'' ''y'' = Inl IndexError"
  by (simp_all add: idle_frame_def iterrows_def getcol_def scan_frame_def last_sample_def
      and_then_def py_last_def)

theorem final_point_emit_never_raises_witness:
  "getcol (image_snapshot idle_image) (ri_z idle_image) = Inr []
   \<and> iterrows (image_snapshot idle_image) = []
   \<and> last_sample (image_snapshot idle_image) (ri_x idle_image) (ri_y idle_image) = Inl IndexError
   \<and> snd (update_data grey_ramp idle_image) = None
   \<and> ri_emitted (fst (update_data grey_ramp idle_image)) = [(0, 0)]
   \<and> ri_printed (fst (update_data grey_ramp idle_image)) = [IndexError]
   \<and> snd (update_data3 grey_ramp idle_image3) = None
   \<and> r3_emitted (fst (update_data3 grey_ramp idle_image3)) = [(0, 0)]
   \<and> r3_printed (fst (update_data3 grey_ramp idle_image3)) = [IndexError]"
proof -
  have h2: "getcol (image_snapshot idle_image) (ri_z idle_image) = Inr []
      \<and> snd (populate grey_ramp (col_min []) (col_max []) (reloaded idle_image)
            (iterrows (image_snapshot idle_image))) = None"
    by (simp add: idle_snapshots idle_fields idle_frame_facts)
  have h3: "populate3 grey_ramp (image3_snapshot idle_image3) (reloaded3 idle_image3)
        (iterrows (image3_snapshot idle_image3)) = (reloaded3 idle_image3, None)
      \<and> getitem0 (r3_img_data (reloaded3 idle_image3)) (r3_shown_zidx idle_image3)
          = Inr (replicate 3 (replicate 3 zero_rgba))"
    by (simp add: idle_snapshots idle_frame_facts idle_fields)
      (simp add: reloaded3_def idle_image3_def scan_image3_def getitem0_def and_then_def
        np_index_def)
  note t = final_point_emit_never_raises [where s = idle_image and zs = "[]" and cm = grey_ramp and t = idle_image3
      and ?t2.0 = "reloaded3 idle_image3" and plane = "replicate 3 (replicate 3 zero_rgba)"]
  from t h2 h3
  have "snd (update_data grey_ramp idle_image) = None
      \<and> ri_emitted (fst (update_data grey_ramp idle_image))
          = emitted_after (image_snapshot idle_image) (ri_x idle_image) (ri_y idle_image)
              (ri_emitted idle_image)
      \<and> ri_printed (fst (update_data grey_ramp idle_image))
          = printed_after (image_snapshot idle_image) (ri_x idle_image) (ri_y idle_image)
              (ri_printed idle_image)
      \<and> snd (update_data3 grey_ramp idle_image3) = None
      \<and> r3_emitted (fst (update_data3 grey_ramp idle_image3))
          = emitted_after (image3_snapshot idle_image3) (r3_x idle_image3) (r3_y idle_image3)
              (r3_emitted idle_image3)
      \<and> r3_printed (fst (update_data3 grey_ramp idle_image3))
          = printed_after (image3_snapshot idle_image3) (r3_x idle_image3) (r3_y idle_image3)
              (r3_printed idle_image3)"
    by blast
  then show ?thesis
    by (simp add: idle_snapshots idle_fields idle_frame_facts emitted_after_def printed_after_def)
qed

subsection \<open>Bindings to a column that the snapshot does not have\<close>

lemma update_data_missing_z:
  assumes "fr_col (image_snapshot s) (ri_z s) = None"
  shows "snd (update_data cm s) = Some (KeyError (ri_z s))"
  using assms by (simp add: update_data_unfold getcol_def)

lemma iterrows_Cons:
  assumes "0 < fr_nrows d"
  shows "\<exists>r rs. iterrows d = r # rs \<and> r = (\<lambda>name. map_option (\<lambda>f. f 0) (fr_col d name))"
proof -
  from assms have "[0 ..< fr_nrows d] = 0 # [Suc 0 ..< fr_nrows d]" by (simp add: upt_conv_Cons)
  then show ?thesis by (simp add: iterrows_def)
qed

lemma update_data_rows_missing_x:
  assumes "0 < fr_nrows (image_snapshot s)"
    and "fr_col (image_snapshot s) (ri_z s) = Some fz"
    and "fr_col (image_snapshot s) (ri_x s) = None"
  shows "snd (update_data cm s) = Some (KeyError (ri_x s))"
proof -
  from iterrows_Cons [OF assms(1)] obtain r rs where
    rows: "iterrows (image_snapshot s) = r # rs"
    and r: "r = (\<lambda>name. map_option (\<lambda>f. f 0) (fr_col (image_snapshot s) name))"
    by blast
  have "populate_row cm zmin zmax (reloaded s) r = Inl (KeyError (ri_x s))" for zmin zmax
    using assms(3) by (simp add: populate_row_def and_then_def getitem_def r)
  then show ?thesis
    using assms(2) by (simp add: update_data_unfold getcol_def rows)
qed

lemma update_data_no_rows_missing_x:
  assumes "fr_nrows (image_snapshot s) = 0"
    and "fr_col (image_snapshot s) (ri_z s) = Some fz"
    and "fr_col (image_snapshot s) (ri_x s) = None"
  shows "snd (update_data cm s) = None
     \<and> ri_emitted (fst (update_data cm s)) = ri_emitted s @ [(0, 0)]
     \<and> ri_printed (fst (update_data cm s)) = ri_printed s @ [KeyError (ri_x s)]"
proof -
  have z: "getcol (image_snapshot s) (ri_z s) = Inr []"
    using assms(1,2) by (simp add: getcol_def)
  have rows: "iterrows (image_snapshot s) = []"
    using assms(1) by (simp add: iterrows_def)
  have "last_sample (image_snapshot s) (ri_x s) (ri_y s) = Inl (KeyError (ri_x s))"
    using assms(3) by (simp add: last_sample_def and_then_def getcol_def)
  with update_data_emits [OF z, of cm] rows show ?thesis
    by (simp add: emitted_after_def printed_after_def)
qed

text \<open>
  C2, as stated, fails: a curve bound to the column t, which the snapshot does not have,
  raises KeyError in \<open>update_data\<close>, and so does \<open>PlotFrame.change_x_axis\<close> when it
  binds the x axis of a plotted curve to t.
\<close>

theorem missing_column_raises_counterexample:
  "fr_col (res_data scan_results) ''t'' = None
   \<and> snd (curve_update_data (ResultsCurve_init scan_results (Some ''t'') (Some ''v'') False))
       = Some (KeyError ''t'')
   \<and> snd (change_x_axis no_units id (Some ''t'') one_curve_frame) = Some (KeyError ''t'')"
proof -
  have t: "fr_col (res_data scan_results) ''t'' = None"
    by (simp add: scan_results_def scan_columns)
  then have "snd (curve_update_data (ResultsCurve_init scan_results (Some ''t'') (Some ''v'') False))
       = Some (KeyError ''t'')"
    by (intro conjunct1 [OF curve_update_missing_x])
      (simp_all add: ResultsCurve_init_def curve_snapshot_def)
  moreover from t have "snd (change_x_axis no_units id (Some ''t'') one_curve_frame)
       = Some (KeyError ''t'')"
    by (intro change_x_axis_missing [of _ "ResultsCurve_init scan_results (Some ''x'') (Some ''v'') False" "[]"])
      (simp_all add: one_curve_frame_def ResultsCurve_init_def curve_snapshot_def)
  ultimately show ?thesis using t by simp
qed

text \<open>
  C2, amended: when a display axis binding names a column that does not exist in the
  snapshot, \<open>ResultsCurve.update_data\<close> raises KeyError for that column (x is read before y)
  and leaves the displayed series as it was, and \<open>PlotFrame.change_x_axis\<close> and
  \<open>change_y_axis\<close>, which bind the axis of a plotted curve and update it, raise too.
  \<open>ResultsImage.update_data\<close> raises KeyError for a missing z column and, when the
  snapshot has rows, for a missing x column.  A fall-back to a default exists in two places:
  on a snapshot without rows \<open>ResultsImage.update_data\<close> catches the KeyError of a
  missing x column at its final-point emit, prints it and emits (0, 0); and
  \<open>PlotFrame.parse_axis\<close> returns (axis, None) without raising for an axis that is not
  a string.
\<close>

theorem missing_column_raises_key_error:
  "(rc_x c = Some n \<and> fr_col (curve_snapshot c) n = None \<longrightarrow>
      snd (curve_update_data c) = Some (KeyError n)
      \<and> rc_shown (fst (curve_update_data c)) = rc_shown c)
   \<and> (rc_x c = Some xn \<and> fr_col (curve_snapshot c) xn = Some f
       \<and> rc_y c = Some n \<and> fr_col (curve_snapshot c) n = None \<longrightarrow>
      snd (curve_update_data c) = Some (KeyError n)
      \<and> rc_shown (fst (curve_update_data c)) = rc_shown c)
   \<and> (pf_items fr = c # cs \<and> fr_col (curve_snapshot c) n = None \<longrightarrow>
      snd (change_x_axis search sub (Some n) fr) = Some (KeyError n)
      \<and> snd (change_y_axis search sub (Some n) fr) \<noteq> None)
   \<and> (fr_col (image_snapshot s) (ri_z s) = None \<longrightarrow>
      snd (update_data cm s) = Some (KeyError (ri_z s)))
   \<and> (0 < fr_nrows (image_snapshot s) \<and> fr_col (image_snapshot s) (ri_z s) = Some fz
       \<and> fr_col (image_snapshot s) (ri_x s) = None \<longrightarrow>
      snd (update_data cm s) = Some (KeyError (ri_x s)))
   \<and> (fr_nrows (image_snapshot s) = 0 \<and> fr_col (image_snapshot s) (ri_z s) = Some fz
       \<and> fr_col (image_snapshot s) (ri_x s) = None \<longrightarrow>
      snd (update_data cm s) = None
      \<and> ri_emitted (fst (update_data cm s)) = ri_emitted s @ [(0, 0)]
      \<and> ri_printed (fst (update_data cm s)) = ri_printed s @ [KeyError (ri_x s)])
   \<and> parse_axis search sub None = (None, None)"
  using curve_update_missing_x [of c n] curve_update_missing_y [of c xn f n]
    change_x_axis_missing [of fr c cs n search sub] change_y_axis_missing [of fr c cs n search sub]
    update_data_missing_z [of s cm] update_data_rows_missing_x [of s fz cm]
    update_data_no_rows_missing_x [of s fz cm]
    parse_axis_None [of search sub]
  by blast

theorem missing_column_raises_key_error_witness:
  "rc_x (ResultsCurve_init scan_results (Some ''t'') (Some ''v'') False) = Some ''t''
   \<and> fr_col (curve_snapshot (ResultsCurve_init scan_results (Some ''t'') (Some ''v'') False)) ''t''
       = None
   \<and> snd (curve_update_data (ResultsCurve_init scan_results (Some ''t'') (Some ''v'') False))
       = Some (KeyError ''t'')
   \<and> rc_shown (fst (curve_update_data (ResultsCurve_init scan_results (Some ''t'') (Some ''v'') False)))
       = ([], [])
   \<and> snd (curve_update_data (ResultsCurve_init scan_results (Some ''x'') (Some ''t'') False))
       = Some (KeyError ''t'')
   \<and> pf_items one_curve_frame = [ResultsCurve_init scan_results (Some ''x'') (Some ''v'') False]
   \<and> snd (change_x_axis no_units id (Some ''t'') one_curve_frame) = Some (KeyError ''t'')
   \<and> snd (change_y_axis no_units id (Some ''t'') one_curve_frame) \<noteq> None
   \<and> fr_col (image_snapshot (scan_image\<lparr>ri_z := ''t''\<rparr>)) ''t'' = None
   \<and> snd (update_data grey_ramp (scan_image\<lparr>ri_z := ''t''\<rparr>)) = Some (KeyError ''t'')
   \<and> fr_nrows (image_snapshot (scan_image\<lparr>ri_x := ''t''\<rparr>)) = 3
   \<and> snd (update_data grey_ramp (scan_image\<lparr>ri_x := ''t''\<rparr>)) = Some (KeyError ''t'')
   \<and> fr_nrows (image_snapshot (idle_image\<lparr>ri_x := ''t''\<rparr>)) = 0
   \<and> fr_col (image_snapshot (idle_image\<lparr>ri_x := ''t''\<rparr>)) ''t'' = None
   \<and> snd (update_data grey_ramp (idle_image\<lparr>ri_x := ''t''\<rparr>)) = None
   \<and> ri_emitted (fst (update_data grey_ramp (idle_image\<lparr>ri_x := ''t''\<rparr>))) = [(0, 0)]
   \<and> ri_printed (fst (update_data grey_ramp (idle_image\<lparr>ri_x := ''t''\<rparr>))) = [KeyError ''t'']
   \<and> parse_axis no_units id None = (None, None)"
proof -
  let ?cx = "ResultsCurve_init scan_results (Some ''t'') (Some ''v'') False"
  let ?cy = "ResultsCurve_init scan_results (Some ''x'') (Some ''t'') False"
  let ?c = "ResultsCurve_init scan_results (Some ''x'') (Some ''v'') False"
  let ?sz = "scan_image\<lparr>ri_z := ''t''\<rparr>" and ?sx = "scan_image\<lparr>ri_x := ''t''\<rparr>"
    and ?ix = "idle_image\<lparr>ri_x := ''t''\<rparr>"
  have snap: "curve_snapshot ?cx = scan_frame" "curve_snapshot ?cy = scan_frame"
    "curve_snapshot ?c = scan_frame"
    by (simp_all add: curve_snapshot_def ResultsCurve_init_def scan_results_def)
  have isnap: "image_snapshot ?sz = scan_frame" "image_snapshot ?sx = scan_frame"
    "image_snapshot ?ix = idle_frame"
    by (simp_all add: image_snapshot_def reloaded_def scan_image_def scan_results_def
        idle_image_def)
  have fields: "ri_z ?sz = ''t''" "ri_x ?sx = ''t''" "ri_z ?sx = ''v''" "ri_x ?ix = ''t''"
    "ri_z ?ix = ''v''" "ri_emitted ?ix = []" "ri_printed ?ix = []"
    by (simp_all add: scan_image_def idle_image_def)
  have idle: "fr_nrows idle_frame = 0" "fr_col idle_frame ''t'' = None"
    "fr_col idle_frame ''v'' = Some (\<lambda>i. [10, 30, 20] ! i)"
    by (simp_all add: idle_frame_def scan_frame_def)
  have hx: "rc_x ?cx = Some ''t'' \<and> fr_col (curve_snapshot ?cx) ''t'' = None"
    by (simp add: snap scan_columns) (simp add: ResultsCurve_init_def)
  have hy: "rc_x ?cy = Some ''x'' \<and> fr_col (curve_snapshot ?cy) ''x'' = Some (\<lambda>i. [0, 1, 5 / 2] ! i)
      \<and> rc_y ?cy = Some ''t'' \<and> fr_col (curve_snapshot ?cy) ''t'' = None"
    by (simp add: snap scan_columns) (simp add: ResultsCurve_init_def)
  have hf: "pf_items one_curve_frame = ?c # [] \<and> fr_col (curve_snapshot ?c) ''t'' = None"
    by (simp add: snap scan_columns) (simp add: one_curve_frame_def)
  have hz: "fr_col (image_snapshot ?sz) (ri_z ?sz) = None"
    by (simp add: isnap fields scan_columns)
  have hr: "0 < fr_nrows (image_snapshot ?sx)
      \<and> fr_col (image_snapshot ?sx) (ri_z ?sx) = Some (\<lambda>i. [10, 30, 20] ! i)
      \<and> fr_col (image_snapshot ?sx) (ri_x ?sx) = None"
    by (simp add: isnap fields scan_columns)
  have hi: "fr_nrows (image_snapshot ?ix) = 0
      \<and> fr_col (image_snapshot ?ix) (ri_z ?ix) = Some (\<lambda>i. [10, 30, 20] ! i)
      \<and> fr_col (image_snapshot ?ix) (ri_x ?ix) = None"
    by (simp add: isnap fields idle)
  note t = missing_column_raises_key_error
  from t [where c = ?cx and n = "''t''"] hx
  have a: "snd (curve_update_data ?cx) = Some (KeyError ''t'')
      \<and> rc_shown (fst (curve_update_data ?cx)) = ([], [])"
    by (simp add: ResultsCurve_init_def)
  from t [where c = ?cy and n = "''t''" and xn = "''x''" and f = "\<lambda>i. [0, 1, 5 / 2] ! i"] hy
  have b: "snd (curve_update_data ?cy) = Some (KeyError ''t'')"
    by simp
  from t [where c = ?c and n = "''t''" and fr = one_curve_frame and cs = "[]"
      and search = no_units and sub = id] hf
  have c: "snd (change_x_axis no_units id (Some ''t'') one_curve_frame) = Some (KeyError ''t'')
      \<and> snd (change_y_axis no_units id (Some ''t'') one_curve_frame) \<noteq> None
      \<and> parse_axis no_units id None = (None, None)"
    by simp
  have d: "snd (update_data grey_ramp ?sz) = Some (KeyError ''t'')"
    using t [where s = ?sz and cm = grey_ramp, THEN conjunct2, THEN conjunct2, THEN conjunct2,
        THEN conjunct1] hz
    by (simp add: fields)
  have e: "snd (update_data grey_ramp ?sx) = Some (KeyError ''t'')"
    using t [where s = ?sx and cm = grey_ramp and fz = "\<lambda>i. [10, 30, 20] ! i",
        THEN conjunct2, THEN conjunct2, THEN conjunct2, THEN conjunct2, THEN conjunct1] hr
    by (simp add: fields)
  have f: "snd (update_data grey_ramp ?ix) = None
      \<and> ri_emitted (fst (update_data grey_ramp ?ix)) = [(0, 0)]
      \<and> ri_printed (fst (update_data grey_ramp ?ix)) = [KeyError ''t'']"
    using t [where s = ?ix and cm = grey_ramp and fz = "\<lambda>i. [10, 30, 20] ! i",
        THEN conjunct2, THEN conjunct2, THEN conjunct2, THEN conjunct2, THEN conjunct2,
        THEN conjunct1] hi
    by (simp add: fields)
  from a b c d e f hx hf show ?thesis
    by (simp add: isnap scan_columns idle)
qed

subsection \<open>Validators and setters of the instrument properties\<close>

lemma strict_range_pair:
  assumes "py_num lo = Some a" and "py_num hi = Some b" and "a \<le> b"
  shows "strict_range v (Tuple [lo, hi]) = range_verdict a b v"
  using assms
  by (simp add: strict_range_def elements_def range_verdict_def min_def max_def
      split: option.split)

lemma in_int_range:
  "(r = of_int \<lfloor>r\<rfloor> \<and> a \<le> \<lfloor>r\<rfloor> \<and> \<lfloor>r\<rfloor> < b + 1) \<longleftrightarrow> (\<exists>k. a \<le> k \<and> k \<le> b \<and> r = of_int k)"
  for r :: real
  by auto

lemma strict_discrete_set_range:
  "strict_discrete_set v (Range a (b + 1)) = int_range_verdict a b v"
proof (cases "py_num v")
  case None
  then show ?thesis by (simp add: strict_discrete_set_def py_in_def int_range_verdict_def)
next
  case (Some r)
  then show ?thesis
    using in_int_range [of r a b]
    by (simp add: strict_discrete_set_def py_in_def int_range_verdict_def)
qed

lemma validate_threshold_ac: "validate threshold_ac v = int_range_verdict (- 60) 60 v"
  using strict_discrete_set_range [of v "- 60" 60]
  by (simp add: validate_def threshold_ac_def control_def)

lemma validate_threshold_dc: "validate threshold_dc v = int_range_verdict (- 300) 2100 v"
  using strict_discrete_set_range [of v "- 300" 2100]
  by (simp add: validate_def threshold_dc_def control_def)

lemma validate_voltage: "validate voltage v = range_verdict (- 30) 30 v"
  by (simp add: validate_def voltage_def control_def volts_def strict_range_pair py_num_def)

lemma validate_speed_accuracy: "validate speed_accuracy v = range_verdict (1 / 100) 10 v"
  by (simp add: validate_def speed_accuracy_def control_def strict_range_pair py_num_def)

lemma validate_discrete:
  "p_validator p = StrictDiscreteSet \<Longrightarrow>
     (validate p v = Inr v \<longleftrightarrow> py_in v (p_values p) = Inr True)
     \<and> (validate p v = Inr v \<or> (\<exists>e. validate p v = Inl e))"
  by (auto simp: validate_def strict_discrete_set_def split: sum.splits)

lemma validate_settling_time: "validate settling_time v = range_verdict 0 (9999999 / 1000) v"
  by (simp add: validate_def settling_time_def control_def strict_range_pair py_num_def)

lemma validate_control_volts:
  "validate (control cmd StrictRange volts) v = range_verdict (- 30) 30 v"
  by (simp add: validate_def control_def volts_def strict_range_pair py_num_def)

lemma validate_control_range:
  "validate (control cmd StrictDiscreteSet (Range a (b + 1))) v = int_range_verdict a b v"
  by (simp add: validate_def control_def strict_discrete_set_range)

lemma validate_none: "p_validator p = NoValidator \<Longrightarrow> validate p v = Inr v"
  by (simp add: validate_def)

lemmas property_tables =
  all_properties_def TF930_properties_def Keithley6482Chnanel_properties_def
  Keithley6482_properties_def PM101U_properties_def

lemma sweep_properties:
  "\<forall>n \<in> set [''start'', ''stop'', ''step'', ''center'', ''span''].
     \<exists>q. map_of all_properties n = Some q \<and> p_validator q = StrictRange
         \<and> (\<forall>v. validate q v = range_verdict (- 30) 30 v)"
  by (simp add: property_tables validate_control_volts) (simp add: control_def)

lemma count_properties:
  "(\<forall>n \<in> set [''points'', ''trigger_count'', ''arm_count''].
      \<exists>q. map_of all_properties n = Some q \<and> p_validator q = StrictDiscreteSet
          \<and> (\<forall>v. validate q v = int_range_verdict 1 2999 v))
   \<and> (\<exists>q. map_of all_properties ''average_filter_count'' = Some q
          \<and> p_validator q = StrictDiscreteSet
          \<and> (\<forall>v. validate q v = int_range_verdict 1 100 v))"
  using validate_control_range [of _ 1 2999] validate_control_range [of _ 1 100]
  by (simp add: property_tables) (simp add: control_def)

lemma range_properties:
  "\<forall>(n, p) \<in> set all_properties. p_validator p = StrictRange \<longrightarrow>
     n \<in> set [''settling_time'', ''voltage'', ''start'', ''stop'', ''step'', ''center'', ''span'',
              ''speed_accuracy'']"
  by (simp add: property_tables voltage_def settling_time_def speed_accuracy_def
      measurement_function_def threshold_ac_def threshold_dc_def measurement_time_def
      inputACoupling_def inputAImpedance_def inputAAttenuation_def edge_trigger_def
      low_pass_filter_enable_def measurement_def control_def)

lemma named_properties:
  "map_of all_properties ''threshold_ac'' = Some threshold_ac"
  "map_of all_properties ''threshold_dc'' = Some threshold_dc"
  "map_of all_properties ''voltage'' = Some voltage"
  "map_of all_properties ''speed_accuracy'' = Some speed_accuracy"
  "map_of all_properties ''settling_time'' = Some settling_time"
  by (simp_all add: property_tables)

lemma fset_invalid:
  assumes "validate p v = Inl e"
  shows "fst (fset fmt p v adapter) = adapter \<and> snd (fset fmt p v adapter) \<noteq> None"
    and "p_set_command p = Some cmd \<Longrightarrow> fset fmt p v adapter = (adapter, Some e)"
  using assms by (simp_all add: fset_def and_then_def split: option.split)

lemma int_range_verdict_PInt:
  "int_range_verdict a b (PInt i) = (if a \<le> i \<and> i \<le> b then Inr (PInt i) else Inl ValueError)"
  by (auto simp: int_range_verdict_def py_num_def)

lemma int_range_verdict_half: "int_range_verdict a b (PFloat (1 / 2)) = Inl ValueError"
proof -
  have "(1 / 2 :: real) \<noteq> of_int k" for k
  proof
    assume h: "(1 / 2 :: real) = of_int k"
    then have "\<lfloor>1 / 2 :: real\<rfloor> = k" by simp
    then have "k = 0" by simp
    with h show False by simp
  qed
  then show ?thesis by (simp add: int_range_verdict_def py_num_def)
qed

lemma voltage_listed: "(''voltage'', voltage) \<in> set all_properties"
  by (simp add: all_properties_def Keithley6482Chnanel_properties_def)

text \<open>
  C3: setting a property to a value that its validator rejects raises the validator's
  error and writes nothing to the adapter: the list of transmitted command strings is the
  same after the call as before.
\<close>

theorem invalid_value_transmits_nothing:
  "(validate p v = Inl e \<longrightarrow>
      fst (fset fmt p v adapter) = adapter \<and> snd (fset fmt p v adapter) \<noteq> None)
   \<and> (validate p v = Inl e \<and> p_set_command p = Some cmd \<longrightarrow>
      fset fmt p v adapter = (adapter, Some e))"
  using fset_invalid(1) [of p v e fmt adapter] fset_invalid(2) [of p v e cmd fmt adapter]
  by blast

theorem invalid_value_transmits_nothing_witness:
  "validate threshold_ac (PInt 61) = Inl ValueError
   \<and> p_set_command threshold_ac = Some ''TO%i''
   \<and> fset sample_fmt threshold_ac (PInt 61) [''TO5''] = ([''TO5''], Some ValueError)
   \<and> validate voltage (PFloat (61 / 2)) = Inl ValueError
   \<and> p_set_command voltage = Some ''SOUR{ch}:VOLT %g''
   \<and> fset sample_fmt voltage (PFloat (61 / 2)) [] = ([], Some ValueError)"
proof -
  have a: "validate threshold_ac (PInt 61) = Inl ValueError
      \<and> p_set_command threshold_ac = Some ''TO%i''"
    by (simp add: validate_threshold_ac int_range_verdict_PInt) (simp add: threshold_ac_def control_def)
  have b: "validate voltage (PFloat (61 / 2)) = Inl ValueError
      \<and> p_set_command voltage = Some ''SOUR{ch}:VOLT %g''"
    by (simp add: validate_voltage range_verdict_def py_num_def) (simp add: voltage_def control_def)
  note t = invalid_value_transmits_nothing
  from t [where p = threshold_ac and v = "PInt 61" and e = ValueError and cmd = "''TO%i''"
      and fmt = sample_fmt and adapter = "[''TO5'']"] a
  have "fset sample_fmt threshold_ac (PInt 61) [''TO5''] = ([''TO5''], Some ValueError)"
    by blast
  moreover
  from t [where p = voltage and v = "PFloat (61 / 2)" and e = ValueError
      and cmd = "''SOUR{ch}:VOLT %g''" and fmt = sample_fmt and adapter = "[]"] b
  have "fset sample_fmt voltage (PFloat (61 / 2)) [] = ([], Some ValueError)"
    by blast
  ultimately show ?thesis using a b by simp
qed

text \<open>
  C4: the validator of every instrument property accepts exactly the values of the
  property's declared range or set and rejects every other value.
  \<open>TF930.threshold_ac\<close> accepts exactly the values equal to an integer of -60..60,
  \<open>TF930.threshold_dc\<close> likewise for -300..2100;
  \<open>Keithley6482Chnanel.voltage\<close>, \<open>start\<close>, \<open>stop\<close>, \<open>step\<close>, \<open>center\<close> and
  \<open>span\<close> accept exactly the numbers of the real interval [-30, 30], \<open>speed_accuracy\<close>
  those of [0.01, 10] and \<open>settling_time\<close> those of [0, 9999.999], and these eight are
  all the properties that validate with \<open>strict_range\<close>.  \<open>points\<close>, \<open>trigger_count\<close>
  and \<open>arm_count\<close> accept exactly the integers 1..2999 and \<open>average_filter_count\<close>
  1..100.  Every property that validates with \<open>strict_discrete_set\<close> accepts exactly the
  values that are \<open>in\<close> its values and rejects every other one, and a property without
  a validator accepts every value.
\<close>

theorem validators_accept_exactly_the_range:
  "validate threshold_ac v = int_range_verdict (- 60) 60 v
   \<and> validate threshold_dc v = int_range_verdict (- 300) 2100 v
   \<and> validate voltage v = range_verdict (- 30) 30 v
   \<and> validate speed_accuracy v = range_verdict (1 / 100) 10 v
   \<and> validate settling_time v = range_verdict 0 (9999999 / 1000) v
   \<and> (\<forall>n \<in> set [''start'', ''stop'', ''step'', ''center'', ''span''].
         \<exists>q. map_of all_properties n = Some q \<and> p_validator q = StrictRange
             \<and> (\<forall>w. validate q w = range_verdict (- 30) 30 w))
   \<and> (\<forall>(n, q) \<in> set all_properties. p_validator q = StrictRange \<longrightarrow>
         n \<in> set [''settling_time'', ''voltage'', ''start'', ''stop'', ''step'', ''center'',
                  ''span'', ''speed_accuracy''])
   \<and> map_of all_properties ''threshold_ac'' = Some threshold_ac
   \<and> map_of all_properties ''threshold_dc'' = Some threshold_dc
   \<and> map_of all_properties ''voltage'' = Some voltage
   \<and> map_of all_properties ''speed_accuracy'' = Some speed_accuracy
   \<and> map_of all_properties ''settling_time'' = Some settling_time
   \<and> (\<forall>n \<in> set [''points'', ''trigger_count'', ''arm_count''].
         \<exists>q. map_of all_properties n = Some q \<and> p_validator q = StrictDiscreteSet
             \<and> (\<forall>w. validate q w = int_range_verdict 1 2999 w))
   \<and> (\<exists>q. map_of all_properties ''average_filter_count'' = Some q
          \<and> p_validator q = StrictDiscreteSet
          \<and> (\<forall>w. validate q w = int_range_verdict 1 100 w))
   \<and> (p_validator p = StrictDiscreteSet \<longrightarrow>
         (validate p v = Inr v \<longleftrightarrow> py_in v (p_values p) = Inr True)
         \<and> (validate p v = Inr v \<or> (\<exists>e. validate p v = Inl e)))
   \<and> (p_validator p = NoValidator \<longrightarrow> validate p v = Inr v)"
  using validate_threshold_ac [of v] validate_threshold_dc [of v] validate_voltage [of v]
    validate_speed_accuracy [of v] validate_settling_time [of v] sweep_properties
    range_properties named_properties count_properties validate_discrete [of p v]
    validate_none [of p v]
  by (intro conjI) blast+

theorem validators_accept_exactly_the_range_witness:
  "validate threshold_ac (PInt 60) = Inr (PInt 60)
   \<and> validate threshold_ac (PInt (- 61)) = Inl ValueError
   \<and> validate threshold_ac (PFloat (1 / 2)) = Inl ValueError
   \<and> validate threshold_dc (PInt 2100) = Inr (PInt 2100)
   \<and> validate threshold_dc (PInt 2101) = Inl ValueError
   \<and> validate voltage (PFloat (59 / 2)) = Inr (PFloat (59 / 2))
   \<and> validate voltage (PFloat (61 / 2)) = Inl ValueError
   \<and> validate speed_accuracy (PInt 10) = Inr (PInt 10)
   \<and> validate speed_accuracy (PFloat (1 / 200)) = Inl ValueError
   \<and> validate settling_time (PFloat (9999999 / 1000)) = Inr (PFloat (9999999 / 1000))
   \<and> validate settling_time (PInt 10000) = Inl ValueError
   \<and> (\<exists>q. map_of all_properties ''span'' = Some q
          \<and> validate q (PInt 30) = Inr (PInt 30) \<and> validate q (PInt 31) = Inl ValueError)
   \<and> (\<exists>q. map_of all_properties ''points'' = Some q
          \<and> validate q (PInt 2999) = Inr (PInt 2999) \<and> validate q (PInt 3000) = Inl ValueError)
   \<and> (''voltage'', voltage) \<in> set all_properties \<and> p_validator voltage = StrictRange
   \<and> p_validator threshold_ac = StrictDiscreteSet
   \<and> py_in (PInt 60) (p_values threshold_ac) = Inr True
   \<and> p_validator measurement = NoValidator
   \<and> validate measurement (PStr ''x'') = Inr (PStr ''x'')"
proof -
  note t = validators_accept_exactly_the_range
  have sr: "p_validator voltage = StrictRange" "p_validator threshold_ac = StrictDiscreteSet"
    "p_validator measurement = NoValidator"
    by (simp_all add: voltage_def threshold_ac_def control_def measurement_def)
  have a: "validate threshold_ac (PInt 60) = Inr (PInt 60)
      \<and> py_in (PInt 60) (p_values threshold_ac) = Inr True"
    using t [where v = "PInt 60" and p = threshold_ac] sr
    by (auto simp: int_range_verdict_PInt)
  have b: "validate threshold_ac (PInt (- 61)) = Inl ValueError
      \<and> validate threshold_dc (PInt 2101) = Inl ValueError"
    using t [where v = "PInt (- 61)" and p = threshold_ac]
      t [where v = "PInt 2101" and p = threshold_ac]
    by (simp add: int_range_verdict_PInt)
  have c: "validate threshold_ac (PFloat (1 / 2)) = Inl ValueError"
    using t [where v = "PFloat (1 / 2)" and p = threshold_ac]
    by (simp add: int_range_verdict_half)
  have d: "validate threshold_dc (PInt 2100) = Inr (PInt 2100)"
    using t [where v = "PInt 2100" and p = threshold_ac]
    by (simp add: int_range_verdict_PInt)
  have e: "validate voltage (PFloat (59 / 2)) = Inr (PFloat (59 / 2))
      \<and> validate voltage (PFloat (61 / 2)) = Inl ValueError"
    using t [where v = "PFloat (59 / 2)" and p = threshold_ac]
      t [where v = "PFloat (61 / 2)" and p = threshold_ac]
    by (simp add: range_verdict_def py_num_def)
  have f: "validate speed_accuracy (PInt 10) = Inr (PInt 10)
      \<and> validate speed_accuracy (PFloat (1 / 200)) = Inl ValueError"
    using t [where v = "PInt 10" and p = threshold_ac]
      t [where v = "PFloat (1 / 200)" and p = threshold_ac]
    by (simp add: range_verdict_def py_num_def)
  have g: "validate settling_time (PFloat (9999999 / 1000)) = Inr (PFloat (9999999 / 1000))
      \<and> validate settling_time (PInt 10000) = Inl ValueError"
    using t [where v = "PFloat (9999999 / 1000)" and p = threshold_ac]
      t [where v = "PInt 10000" and p = threshold_ac]
    by (simp add: range_verdict_def py_num_def)
  have "\<forall>n \<in> set [''start'', ''stop'', ''step'', ''center'', ''span''].
         \<exists>q. map_of all_properties n = Some q \<and> p_validator q = StrictRange
             \<and> (\<forall>w. validate q w = range_verdict (- 30) 30 w)"
    using t [where v = "PInt 0" and p = measurement] by blast
  then obtain q where q: "map_of all_properties ''span'' = Some q"
      "\<forall>w. validate q w = range_verdict (- 30) 30 w"
    by auto
  have h: "\<exists>q. map_of all_properties ''span'' = Some q
          \<and> validate q (PInt 30) = Inr (PInt 30) \<and> validate q (PInt 31) = Inl ValueError"
    by (rule exI [of _ q]) (simp add: q range_verdict_def py_num_def)
  have "\<forall>n \<in> set [''points'', ''trigger_count'', ''arm_count''].
         \<exists>q. map_of all_properties n = Some q \<and> p_validator q = StrictDiscreteSet
             \<and> (\<forall>w. validate q w = int_range_verdict 1 2999 w)"
    using t [where v = "PInt 0" and p = measurement] by blast
  then obtain r where r: "map_of all_properties ''points'' = Some r"
      "\<forall>w. validate r w = int_range_verdict 1 2999 w"
    by auto
  have i: "\<exists>q. map_of all_properties ''points'' = Some q
          \<and> validate q (PInt 2999) = Inr (PInt 2999) \<and> validate q (PInt 3000) = Inl ValueError"
    by (rule exI [of _ r]) (simp add: r int_range_verdict_PInt)
  have j: "validate measurement (PStr ''x'') = Inr (PStr ''x'')"
    using t [where v = "PStr ''x''" and p = measurement] sr(3) by blast
  from a b c d e f g h i j sr voltage_listed show ?thesis by simp
qed

end
